theory Spec2Isabelle
  imports Main "HOL-Library.Log_Nat"
begin

section \<open>Errors, responses and results\<close>

text \<open>
  Go error values that the retry executor creates or inspects. A \<open>*url.Error\<close> is kept
  as the text its \<open>Error()\<close> method returns (the regular expressions of the retry policy
  read exactly that text) together with the error it wraps (its \<open>Err\<close> field). The error
  built by \<open>fmt.Errorf("%s %s giving up after %d attempt(s)[: %w]", ...)\<close> keeps its
  arguments: method, URL, attempt count and the wrapped cause, if any.
\<close>

datatype go_error =
    UrlError string go_error
  | UnknownAuthorityError
  | Canceled
  | DeadlineExceeded
  | ErrorString string
  | GivingUp string string int "go_error option"

text \<open>
  An \<open>*http.Response\<close> as far as this package reads it: the status code, the header map
  (key to list of values, keys as stored) and what reading the body to its end gives.
\<close>

record response =
  StatusCode :: int
  Header :: "string \<rightharpoonup> string list"
  RespBody :: string
  RespBodyErr :: "go_error option"

text \<open>A call either returns a value or panics (nil dereference, index out of range).\<close>

datatype 'a outcome = Returns 'a | Panics

section \<open>The default retry policy\<close>

text \<open>
  \<open>redirectsErrorRe = `stopped after \d+ redirects\z`\<close>: the text ends with
  "stopped after ", one or more ASCII digits, " redirects". The match is read from the
  end of the text: the digits are followed (to the left) by a space, which is no digit, so
  taking the longest run of digits loses no match.
\<close>

definition is_digit :: "char \<Rightarrow> bool" where
  "is_digit c = (c \<in> set ''0123456789'')"

fun has_prefix :: "string \<Rightarrow> string \<Rightarrow> bool" where
  "has_prefix s [] = True"
| "has_prefix [] (p # ps) = False"
| "has_prefix (c # cs) (p # ps) = (c = p \<and> has_prefix cs ps)"

definition has_suffix :: "string \<Rightarrow> string \<Rightarrow> bool" where
  "has_suffix s p = has_prefix (rev s) (rev p)"

fun contains :: "string \<Rightarrow> string \<Rightarrow> bool" where
  "contains [] p = (p = [])"
| "contains (c # cs) p = (has_prefix (c # cs) p \<or> contains cs p)"

definition redirectsErrorRe :: "string \<Rightarrow> bool" where
  "redirectsErrorRe s =
     (let r = rev s in
      has_prefix r (rev '' redirects'') \<and>
      (let r1 = drop 10 r; ds = takeWhile is_digit r1 in
       ds \<noteq> [] \<and> has_prefix (dropWhile is_digit r1) (rev ''stopped after '')))"

definition schemeErrorRe :: "string \<Rightarrow> bool" where
  "schemeErrorRe s = contains s ''unsupported protocol scheme''"

text \<open>
  \<open>DefaultRetryPolicy(ctx, resp, err)\<close>. The context enters as the value of
  \<open>ctx.Err()\<close>; \<open>resp\<close> and \<open>err\<close> may be nil. With no error and no response the
  read of \<open>resp.StatusCode\<close> dereferences nil.
\<close>

definition DefaultRetryPolicy ::
  "go_error option \<Rightarrow> response option \<Rightarrow> go_error option \<Rightarrow> (bool \<times> go_error option) outcome"
where
  "DefaultRetryPolicy ctx_err resp err =
     (case ctx_err of
        Some ce \<Rightarrow> Returns (False, Some ce)
      | None \<Rightarrow>
         (case err of
            Some e \<Rightarrow>
              (case e of
                 UrlError msg inner \<Rightarrow>
                   if redirectsErrorRe msg then Returns (False, None)
                   else if schemeErrorRe msg then Returns (False, None)
                   else if inner = UnknownAuthorityError then Returns (False, None)
                   else Returns (True, None)
               | _ \<Rightarrow> Returns (True, None))
          | None \<Rightarrow>
              (case resp of
                 None \<Rightarrow> Panics
               | Some r \<Rightarrow>
                   if StatusCode r = 429 then Returns (True, None)
                   else if StatusCode r = 0 \<or> (StatusCode r \<ge> 500 \<and> StatusCode r \<noteq> 501)
                     then Returns (True, None)
                   else Returns (False, None))))"

text \<open>
  The three kinds of transport error the policy does not retry, as the code tells them
  apart: only on a \<open>*url.Error\<close>, by the two regular expressions on its text and by the
  type of the wrapped error.
\<close>

fun terminal_transport_error :: "go_error \<Rightarrow> bool" where
  "terminal_transport_error (UrlError msg inner) =
     (redirectsErrorRe msg \<or> schemeErrorRe msg \<or> inner = UnknownAuthorityError)"
| "terminal_transport_error _ = False"

text \<open>The retryable statuses in the words of the specification: 429, and 500 to 599 but 501.\<close>

definition spec_retryable_status :: "int \<Rightarrow> bool" where
  "spec_retryable_status st = (st = 429 \<or> (500 \<le> st \<and> st \<le> 599 \<and> st \<noteq> 501))"

text \<open>The retryable statuses of the code: 429, 0, and everything from 500 up but 501.\<close>

definition code_retryable_status :: "int \<Rightarrow> bool" where
  "code_retryable_status st = (st = 429 \<or> st = 0 \<or> (500 \<le> st \<and> st \<noteq> 501))"

section \<open>The default backoff\<close>

subsection \<open>\<open>strconv.ParseInt(s, 10, 64)\<close>\<close>

text \<open>
  An optional sign, then one or more ASCII digits and nothing else; no underscores in
  base 10. A value outside the signed 64-bit range is a range error. \<open>None\<close> stands for
  a non-nil \<open>err\<close>.
\<close>

definition digit_val :: "char \<Rightarrow> int" where
  "digit_val c = int (of_char c) - 48"

definition ParseInt :: "string \<Rightarrow> int option" where
  "ParseInt s =
     (case s of
        [] \<Rightarrow> None
      | c # cs \<Rightarrow>
          (let neg = (c = CHR ''-'');
               ds = (if c = CHR ''+'' \<or> c = CHR ''-'' then cs else s)
           in if ds = [] \<or> \<not> list_all is_digit ds then None
              else (let un = foldl (\<lambda>a d. 10 * a + digit_val d) 0 ds
                    in if \<not> neg \<and> un \<ge> 2 ^ 63 then None
                       else if neg \<and> un > 2 ^ 63 then None
                       else Some (if neg then - un else un))))"

text \<open>Signed 64-bit wrap-around, as \<open>int64\<close> multiplication does it.\<close>

definition wrap64 :: "int \<Rightarrow> int" where
  "wrap64 n = (n + 2 ^ 63) mod 2 ^ 64 - 2 ^ 63"

definition is_int64 :: "int \<Rightarrow> bool" where
  "is_int64 n = (- (2 ^ 63) \<le> n \<and> n < 2 ^ 63)"

subsection \<open>The \<open>float64\<close> operations the backoff uses\<close>

text \<open>
  A binary64 value is a finite \<open>m * 2^e\<close> (\<open>Fin m e\<close>, not normalised), an infinity or
  NaN. The sign of zero is not kept: no operation below tells +0 from -0.
  \<open>round_f64 m e\<close> rounds the real number \<open>m * 2^e\<close> to binary64, ties to even:
  53 bits of mantissa, the last bit never below \<open>2^-1074\<close>, overflow to infinity.
\<close>

datatype f64 = Fin int int | PInf | NInf | NaN

definition round_f64 :: "int \<Rightarrow> int \<Rightarrow> f64" where
  "round_f64 m e =
     (if m = 0 then Fin 0 0
      else
        (let a = \<bar>m\<bar>;
             q = max (bitlen a + e - 53) (- 1074)
         in if q \<le> e
            then (if bitlen a + e > 1024 then (if m > 0 then PInf else NInf) else Fin m e)
            else (let sh = nat (q - e);
                      d = a div 2 ^ sh;
                      r = a mod 2 ^ sh;
                      h = 2 ^ (sh - 1);
                      a' = (if r > h \<or> (r = h \<and> odd d) then d + 1 else d)
                  in if bitlen a' + q > 1024 then (if m > 0 then PInf else NInf)
                     else Fin (sgn m * a') q)))"

text \<open>\<open>float64(n)\<close> for an integer \<open>n\<close>.\<close>

definition float64_of_int :: "int \<Rightarrow> f64" where
  "float64_of_int n = round_f64 n 0"

text \<open>
  \<open>math.Pow(2, float64(k))\<close> for an integer \<open>k\<close>: the power of two where binary64 has
  it (down to the smallest subnormal \<open>2^-1074\<close>), infinity from \<open>2^1024\<close> on, zero
  below.
\<close>

definition Pow2 :: "int \<Rightarrow> f64" where
  "Pow2 k = (if k \<ge> 1024 then PInf else if k < - 1074 then Fin 0 0 else Fin 1 k)"

fun fmul :: "f64 \<Rightarrow> f64 \<Rightarrow> f64" where
  "fmul (Fin m e) (Fin n f) = round_f64 (m * n) (e + f)"
| "fmul NaN y = NaN"
| "fmul x NaN = NaN"
| "fmul PInf (Fin n f) = (if n = 0 then NaN else if n > 0 then PInf else NInf)"
| "fmul NInf (Fin n f) = (if n = 0 then NaN else if n > 0 then NInf else PInf)"
| "fmul (Fin n f) PInf = (if n = 0 then NaN else if n > 0 then PInf else NInf)"
| "fmul (Fin n f) NInf = (if n = 0 then NaN else if n > 0 then NInf else PInf)"
| "fmul PInf PInf = PInf"
| "fmul PInf NInf = NInf"
| "fmul NInf PInf = NInf"
| "fmul NInf NInf = PInf"

text \<open>\<open>x == y\<close> on binary64: by value, and NaN equals nothing.\<close>

fun f64_eq :: "f64 \<Rightarrow> f64 \<Rightarrow> bool" where
  "f64_eq (Fin m e) (Fin n f) =
     (m * 2 ^ nat (e - min e f) = n * 2 ^ nat (f - min e f))"
| "f64_eq PInf PInf = True"
| "f64_eq NInf NInf = True"
| "f64_eq x y = False"

text \<open>
  \<open>int64(x)\<close> for a binary64 \<open>x\<close>: truncation toward zero where the result fits. Where it
  does not (or \<open>x\<close> is NaN) Go leaves the value to the implementation; the two behaviours
  of the gc compiler's targets are modelled: the "integer indefinite" value \<open>-2^63\<close>
  (amd64), and saturation with NaN going to 0 (arm64).
\<close>

datatype conv_arch = Indefinite | Saturating

definition trunc_f64 :: "int \<Rightarrow> int \<Rightarrow> int" where
  "trunc_f64 m e = (if e \<ge> 0 then m * 2 ^ nat e else sgn m * (\<bar>m\<bar> div 2 ^ nat (- e)))"

definition out_of_range :: "conv_arch \<Rightarrow> bool \<Rightarrow> int" where
  "out_of_range arch positive =
     (case arch of Indefinite \<Rightarrow> - (2 ^ 63)
      | Saturating \<Rightarrow> (if positive then 2 ^ 63 - 1 else - (2 ^ 63)))"

fun int64_of_f64 :: "conv_arch \<Rightarrow> f64 \<Rightarrow> int" where
  "int64_of_f64 arch (Fin m e) =
     (let t = trunc_f64 m e in if is_int64 t then t else out_of_range arch (t > 0))"
| "int64_of_f64 arch PInf = out_of_range arch True"
| "int64_of_f64 arch NInf = out_of_range arch False"
| "int64_of_f64 arch NaN = (case arch of Indefinite \<Rightarrow> - (2 ^ 63) | Saturating \<Rightarrow> 0)"

subsection \<open>\<open>DefaultBackoff\<close>\<close>

text \<open>
  The exponential branch: \<open>mult := math.Pow(2, float64(attemptNum)) * float64(min)\<close>,
  \<open>sleep := time.Duration(mult)\<close>, and \<open>max\<close> when the conversion was not exact or
  \<open>sleep > max\<close>. Durations are \<open>int64\<close> nanoseconds.
\<close>

definition exponential_backoff :: "conv_arch \<Rightarrow> int \<Rightarrow> int \<Rightarrow> int \<Rightarrow> int" where
  "exponential_backoff arch mn mx attemptNum =
     (let mult = fmul (Pow2 attemptNum) (float64_of_int mn);
          sleep = int64_of_f64 arch mult
      in if \<not> f64_eq (float64_of_int sleep) mult \<or> sleep > mx then mx else sleep)"

text \<open>
  \<open>DefaultBackoff(min, max, attemptNum, resp)\<close>. \<open>resp.Header["Retry-After"]\<close> reads
  the map at that very key; \<open>s[0]\<close> on an empty list of values panics;
  \<open>time.Second * time.Duration(sleep)\<close> is an \<open>int64\<close> product and wraps.
\<close>

definition DefaultBackoff ::
  "conv_arch \<Rightarrow> int \<Rightarrow> int \<Rightarrow> int \<Rightarrow> response option \<Rightarrow> int outcome"
where
  "DefaultBackoff arch mn mx attemptNum resp =
     (case resp of
        None \<Rightarrow> Returns (exponential_backoff arch mn mx attemptNum)
      | Some r \<Rightarrow>
          if StatusCode r = 429 then
            (case Header r ''Retry-After'' of
               None \<Rightarrow> Returns (exponential_backoff arch mn mx attemptNum)
             | Some s \<Rightarrow>
                 (case s of
                    [] \<Rightarrow> Panics
                  | s0 # rest \<Rightarrow>
                      (case ParseInt s0 of
                         Some sleep \<Rightarrow> Returns (wrap64 (1000000000 * sleep))
                       | None \<Rightarrow> Returns (exponential_backoff arch mn mx attemptNum))))
          else Returns (exponential_backoff arch mn mx attemptNum))"

text \<open>
  The Retry-After override in the words of the specification: the header's (first)
  value parsed as an integer count of seconds, when the status is 429 and it parses.
\<close>

definition retry_after_seconds :: "response option \<Rightarrow> int option" where
  "retry_after_seconds resp =
     (case resp of
        None \<Rightarrow> None
      | Some r \<Rightarrow>
          if StatusCode r = 429 then
            (case Header r ''Retry-After'' of
               Some (s0 # rest) \<Rightarrow> ParseInt s0
             | _ \<Rightarrow> None)
          else None)"

definition empty_retry_after :: "response option \<Rightarrow> bool" where
  "empty_retry_after resp =
     (case resp of
        None \<Rightarrow> False
      | Some r \<Rightarrow> StatusCode r = 429 \<and> Header r ''Retry-After'' = Some [])"

text \<open>A 429 response with the given values under \<open>Retry-After\<close>, for examples.\<close>

definition resp429 :: "string list \<Rightarrow> response" where
  "resp429 vs = \<lparr>StatusCode = 429, Header = [''Retry-After'' \<mapsto> vs], RespBody = [], RespBodyErr = None\<rparr>"

section \<open>The retry executor\<close>

text \<open>
  \<open>RetryDoer\<close> with its three policies. \<open>CheckRetry\<close> receives the value of
  \<open>ctx.Err()\<close> at the time it is called in place of the context; a nil \<open>ErrorHandler\<close>
  is \<open>None\<close>. The logger only observes and is left out.
\<close>

record RetryDoer =
  RetryWaitMin :: int
  RetryWaitMax :: int
  RetryMax :: int
  CheckRetry :: "go_error option \<Rightarrow> response option \<Rightarrow> go_error option \<Rightarrow> (bool \<times> go_error option) outcome"
  Backoff :: "int \<Rightarrow> int \<Rightarrow> int \<Rightarrow> response option \<Rightarrow> int outcome"
  ErrorHandler :: "(response option \<Rightarrow> go_error option \<Rightarrow> int \<Rightarrow> response option \<times> go_error option) option"

text \<open>The request, as far as the error text names it.\<close>

record request =
  Method :: string
  URL :: string

text \<open>
  What the surroundings do during one call, by loop iteration \<open>i = 0, 1, ...\<close>:
  whether \<open>req.rewind()\<close> fails, what the inner executor's \<open>Do\<close> returns, what
  \<open>ctx.Err()\<close> is when the policy is consulted, and whether the context's \<open>Done\<close>
  channel wins the \<open>select\<close> against the timer (then with which \<open>ctx.Err()\<close>).
\<close>

record env =
  rewind_err :: "nat \<Rightarrow> go_error option"
  do_outcome :: "nat \<Rightarrow> response option \<times> go_error option"
  ctx_err :: "nat \<Rightarrow> go_error option"
  wait_cancel :: "nat \<Rightarrow> go_error option"

text \<open>
  The result of a call: what it returns (or that it panics) and, as a ghost value, how
  often the inner executor was invoked.
\<close>

record call_result =
  ret :: "(response option \<times> go_error option) outcome"
  calls :: nat

text \<open>The code after the loop of \<open>DoCustom\<close>.\<close>

definition terminal ::
  "RetryDoer \<Rightarrow> request \<Rightarrow> response option \<Rightarrow> go_error option \<Rightarrow> go_error option \<Rightarrow> bool \<Rightarrow> int
     \<Rightarrow> response option \<times> go_error option"
where
  "terminal c req resp doErr checkErr shouldRetry attempt =
     (if doErr = None \<and> checkErr = None \<and> \<not> shouldRetry then (resp, None)
      else
        (let err = (case checkErr of Some ce \<Rightarrow> Some ce | None \<Rightarrow> doErr)
         in case ErrorHandler c of
              Some h \<Rightarrow> h resp err attempt
            | None \<Rightarrow> (None, Some (GivingUp (Method req) (URL req) attempt err))))"

text \<open>
  The loop of \<open>DoCustom\<close>, entered at iteration \<open>i\<close> with the previous response
  \<open>resp\<close>, the counter \<open>attempt\<close> and \<open>n\<close> executor invocations so far. The loop index
  is a Go \<open>int\<close>; it starts at 0 and stops growing at \<open>RetryMax\<close>, so it is kept as a
  natural number. Draining a response body before the wait reads \<open>resp.Body\<close>, a nil
  dereference when the executor returned neither a response nor an error.
\<close>

function DoCustom_loop ::
  "RetryDoer \<Rightarrow> env \<Rightarrow> request \<Rightarrow> response option \<Rightarrow> int \<Rightarrow> nat \<Rightarrow> nat \<Rightarrow> call_result"
where
  "DoCustom_loop c ev req resp attempt n i =
     (case rewind_err ev i of
        Some e \<Rightarrow> \<lparr>ret = Returns (resp, Some e), calls = n\<rparr>
      | None \<Rightarrow>
          (case do_outcome ev i of (resp', doErr) \<Rightarrow>
             (case CheckRetry c (ctx_err ev i) resp' doErr of
                Panics \<Rightarrow> \<lparr>ret = Panics, calls = Suc n\<rparr>
              | Returns (shouldRetry, checkErr) \<Rightarrow>
                  if \<not> shouldRetry \<or> RetryMax c - int i \<le> 0
                  then \<lparr>ret = Returns (terminal c req resp' doErr checkErr shouldRetry (attempt + 1)),
                        calls = Suc n\<rparr>
                  else if doErr = None \<and> resp' = None then \<lparr>ret = Panics, calls = Suc n\<rparr>
                  else
                    (case Backoff c (RetryWaitMin c) (RetryWaitMax c) (int i) resp' of
                       Panics \<Rightarrow> \<lparr>ret = Panics, calls = Suc n\<rparr>
                     | Returns wait \<Rightarrow>
                         (case wait_cancel ev i of
                            Some e \<Rightarrow> \<lparr>ret = Returns (None, Some e), calls = Suc n\<rparr>
                          | None \<Rightarrow> DoCustom_loop c ev req resp' (attempt + 1) (Suc n) (Suc i))))))"
  by pat_completeness auto
termination
  by (relation "measure (\<lambda>(c, ev, req, resp, attempt, n, i). nat (RetryMax c - int i))") auto

declare DoCustom_loop.simps [simp del]

definition DoCustom :: "RetryDoer \<Rightarrow> env \<Rightarrow> request \<Rightarrow> call_result" where
  "DoCustom c ev req = DoCustom_loop c ev req None 0 0 0"

text \<open>\<open>NewRetryDoer\<close> without options, on a given conversion behaviour of the platform.\<close>

definition NewRetryDoer :: "conv_arch \<Rightarrow> RetryDoer" where
  "NewRetryDoer arch =
     \<lparr>RetryWaitMin = 1000000000, RetryWaitMax = 30000000000, RetryMax = 4,
      CheckRetry = DefaultRetryPolicy, Backoff = DefaultBackoff arch, ErrorHandler = None\<rparr>"

text \<open>An error "reports \<open>k\<close> attempts" when it is the giving-up error with that count.\<close>

fun reports_attempts :: "go_error \<Rightarrow> int \<Rightarrow> bool" where
  "reports_attempts (GivingUp m u k cause) n = (k = n)"
| "reports_attempts _ n = False"

text \<open>
  Iteration \<open>k\<close> goes round the loop: the body rewinds, the policy asks for a retry,
  the budget is not used up, nothing panics and the wait runs to its end.
\<close>

definition continues :: "RetryDoer \<Rightarrow> env \<Rightarrow> nat \<Rightarrow> bool" where
  "continues c ev k =
     (rewind_err ev k = None \<and>
      (case do_outcome ev k of (resp', doErr) \<Rightarrow>
         (case CheckRetry c (ctx_err ev k) resp' doErr of
            Panics \<Rightarrow> False
          | Returns (shouldRetry, checkErr) \<Rightarrow>
              shouldRetry \<and> 0 < RetryMax c - int k \<and> (doErr \<noteq> None \<or> resp' \<noteq> None) \<and>
              Backoff c (RetryWaitMin c) (RetryWaitMax c) (int k) resp' \<noteq> Panics \<and>
              wait_cancel ev k = None)))"

text \<open>
  Iteration \<open>k\<close> reaches the wait: as above, up to the \<open>select\<close> between the timer and
  the context.
\<close>

definition reaches_wait :: "RetryDoer \<Rightarrow> env \<Rightarrow> nat \<Rightarrow> bool" where
  "reaches_wait c ev k =
     (rewind_err ev k = None \<and>
      (case do_outcome ev k of (resp', doErr) \<Rightarrow>
         (case CheckRetry c (ctx_err ev k) resp' doErr of
            Panics \<Rightarrow> False
          | Returns (shouldRetry, checkErr) \<Rightarrow>
              shouldRetry \<and> 0 < RetryMax c - int k \<and> (doErr \<noteq> None \<or> resp' \<noteq> None) \<and>
              Backoff c (RetryWaitMin c) (RetryWaitMax c) (int k) resp' \<noteq> Panics)))"

text \<open>
  Surroundings for examples: a server that answers 503 to every attempt, bodies that
  always rewind, a context that stays live.
\<close>

definition resp503 :: response where
  "resp503 = \<lparr>StatusCode = 503, Header = Map.empty, RespBody = [], RespBodyErr = None\<rparr>"

definition always_503 :: env where
  "always_503 = \<lparr>rewind_err = (\<lambda>i. None), do_outcome = (\<lambda>i. (Some resp503, None)),
     ctx_err = (\<lambda>i. None), wait_cancel = (\<lambda>i. None)\<rparr>"

definition get_u :: request where
  "get_u = \<lparr>Method = ''GET'', URL = ''http://a.io''\<rparr>"

section \<open>Slices and their backing arrays\<close>

text \<open>
  A Go slice is a pointer to a backing array, a length and a capacity; two slices may
  share an array. The store maps addresses to arrays (each of its capacity, unused cells
  holding the zero value) and knows the next free address.
\<close>

record slice =
  ptr :: nat
  len :: nat
  cap :: nat

record 'e store =
  arrays :: "nat \<Rightarrow> 'e list"
  next_addr :: nat

definition nil_slice :: slice where
  "nil_slice = \<lparr>ptr = 0, len = 0, cap = 0\<rparr>"

text \<open>What a reader of the slice sees.\<close>

definition elems :: "'e store \<Rightarrow> slice \<Rightarrow> 'e list" where
  "elems st s = take (len s) (arrays st (ptr s))"

definition new_array :: "'e store \<Rightarrow> 'e list \<Rightarrow> 'e store \<times> nat" where
  "new_array st xs =
     (st\<lparr>arrays := (arrays st)(next_addr st := xs), next_addr := Suc (next_addr st)\<rparr>,
      next_addr st)"

text \<open>
  \<open>append(s, v)\<close>: with spare capacity the value is written into the shared array just
  past the slice's length; otherwise the elements move to a new array, whose capacity
  the runtime chooses (\<open>grow\<close>, from the old capacity and the length needed).
\<close>

definition append1 ::
  "(nat \<Rightarrow> nat \<Rightarrow> nat) \<Rightarrow> 'e \<Rightarrow> 'e store \<Rightarrow> slice \<Rightarrow> 'e \<Rightarrow> 'e store \<times> slice"
where
  "append1 grow z st s v =
     (if len s < cap s
      then (st\<lparr>arrays := (arrays st)(ptr s := (arrays st (ptr s))[len s := v])\<rparr>,
            s\<lparr>len := Suc (len s)\<rparr>)
      else
        (let c = grow (cap s) (Suc (len s));
             (st', a) = new_array st (elems st s @ v # replicate (c - Suc (len s)) z)
         in (st', \<lparr>ptr = a, len = Suc (len s), cap = c\<rparr>)))"

text \<open>
  \<open>append([]T{}, xs...)\<close>: a copy of \<open>xs\<close> in an array of its own (no array at all
  when \<open>xs\<close> is empty).
\<close>

definition copy_slice ::
  "(nat \<Rightarrow> nat \<Rightarrow> nat) \<Rightarrow> 'e \<Rightarrow> 'e store \<Rightarrow> 'e list \<Rightarrow> 'e store \<times> slice"
where
  "copy_slice grow z st xs =
     (if xs = [] then (st, nil_slice)
      else
        (let c = grow 0 (length xs);
             (st', a) = new_array st (xs @ replicate (c - length xs) z)
         in (st', \<lparr>ptr = a, len = length xs, cap = c\<rparr>)))"

text \<open>
  The growth of the gc runtime for elements of 16 bytes (strings, interface values) while
  the array stays small: the needed length if that is more than double the old capacity,
  else double the old capacity. (From 256 elements on the runtime grows more slowly; that
  range is not used below.)
\<close>

definition gc_growslice :: "nat \<Rightarrow> nat \<Rightarrow> nat" where
  "gc_growslice oldcap needed = (if needed > 2 * oldcap then needed else 2 * oldcap)"

section \<open>The request builder\<close>

text \<open>
  What the builder takes from outside the package: the canonical form of a header key
  (\<open>textproto.CanonicalMIMEHeaderKey\<close>), the runtime's slice growth, \<open>url.Parse\<close>,
  \<open>(*URL).ResolveReference\<close> and \<open>(*URL).String\<close>, and the JSON decoder of a response
  body into a target. \<open>'u\<close> is \<open>url.URL\<close>, \<open>'a\<close> any Go value passed as
  \<open>interface{}\<close> or \<open>io.Reader\<close>.
\<close>

record ('a, 'u) lib =
  CanonicalMIMEHeaderKey :: "string \<Rightarrow> string"
  growslice :: "nat \<Rightarrow> nat \<Rightarrow> nat"
  url_Parse :: "string \<Rightarrow> go_error + 'u"
  url_ResolveReference :: "'u \<Rightarrow> 'u \<Rightarrow> 'u"
  url_String :: "'u \<Rightarrow> string"
  jsonDecoder :: "response \<Rightarrow> 'a \<Rightarrow> go_error option \<times> 'a"

text \<open>
  The body providers of the package, and a caller's own implementation of the interface
  with the content type it reports.
\<close>

datatype 'a body_provider =
    plainBodyProvider 'a
  | jsonBodyProvider 'a
  | formBodyProvider 'a
  | formUrlEncodedProvider "string \<rightharpoonup> string"
  | xmlProvider 'a
  | customBodyProvider string

datatype 'a multipart_provider =
    multipartDataBodyProvider "(string \<rightharpoonup> 'a) option" "(string \<rightharpoonup> 'a) option"
  | customMultipartProvider

fun ContentType :: "'a body_provider \<Rightarrow> string" where
  "ContentType (plainBodyProvider b) = ''''"
| "ContentType (jsonBodyProvider p) = ''application/json''"
| "ContentType (formBodyProvider p) = ''application/x-www-form-urlencoded''"
| "ContentType (formUrlEncodedProvider m) = ''application/x-www-form-urlencoded''"
| "ContentType (xmlProvider p) = ''text/xml''"
| "ContentType (customBodyProvider ct) = ct"

text \<open>
  The fields of \<open>Rest\<close> (its field \<open>method\<close> is \<open>httpMethod\<close> here). Each builder owns its header map; the values of the map and
  the list of query structs are slices into the two stores of the world, which all
  builders share. The executor, the context and the logger are left out; of the metrics
  counter only whether it is set.
\<close>

record ('a, 'u) Rest =
  httpMethod :: string
  baseURL :: "'u option"
  rawURL :: string
  header :: "string \<rightharpoonup> slice"
  queryStructs :: slice
  queryParams :: "string \<rightharpoonup> string"
  bodyProvider :: "'a body_provider option"
  multipartBodyProvider :: "'a multipart_provider option"
  responseDecoder :: "response \<Rightarrow> 'a \<Rightarrow> go_error option \<times> 'a"
  isSuccess :: "response \<Rightarrow> bool"
  counterVec :: bool

record 'a world =
  hstore :: "string store"
  qstore :: "'a option store"

definition empty_world :: "'a world" where
  "empty_world =
     \<lparr>hstore = \<lparr>arrays = (\<lambda>a. []), next_addr = 0\<rparr>,
      qstore = \<lparr>arrays = (\<lambda>a. []), next_addr = 0\<rparr>\<rparr>"

definition DecodeOnSuccess :: "response \<Rightarrow> bool" where
  "DecodeOnSuccess resp = (200 \<le> StatusCode resp \<and> StatusCode resp \<le> 299)"

text \<open>\<open>New()\<close> without options.\<close>

definition New :: "('a, 'u) lib \<Rightarrow> ('a, 'u) Rest" where
  "New l =
     \<lparr>httpMethod = ''GET'', baseURL = None, rawURL = '''', header = Map.empty,
      queryStructs = nil_slice, queryParams = Map.empty, bodyProvider = None,
      multipartBodyProvider = None, responseDecoder = jsonDecoder l,
      isSuccess = DecodeOnSuccess, counterVec = False\<rparr>"

subsection \<open>Headers\<close>

text \<open>The values a builder holds for a (canonical) key, as a reader of its map sees them.\<close>

definition header_values :: "'a world \<Rightarrow> ('a, 'u) Rest \<Rightarrow> string \<Rightarrow> string list option" where
  "header_values w s k = map_option (elems (hstore w)) (header s k)"

text \<open>\<open>http.Header.Add\<close>: \<open>h[key] = append(h[key], value)\<close> on the canonical key.\<close>

definition AddHeader ::
  "('a, 'u) lib \<Rightarrow> 'a world \<times> ('a, 'u) Rest \<Rightarrow> string \<Rightarrow> string \<Rightarrow> 'a world \<times> ('a, 'u) Rest"
where
  "AddHeader l ws key v =
     (case ws of (w, s) \<Rightarrow>
        (let k = CanonicalMIMEHeaderKey l key;
             old = (case header s k of None \<Rightarrow> nil_slice | Some sl \<Rightarrow> sl);
             (hs, sl') = append1 (growslice l) [] (hstore w) old v
         in (w\<lparr>hstore := hs\<rparr>, s\<lparr>header := (header s)(k \<mapsto> sl')\<rparr>)))"

text \<open>\<open>http.Header.Set\<close>: \<open>h[key] = []string{value}\<close>, a new array of one element.\<close>

definition SetHeader ::
  "('a, 'u) lib \<Rightarrow> 'a world \<times> ('a, 'u) Rest \<Rightarrow> string \<Rightarrow> string \<Rightarrow> 'a world \<times> ('a, 'u) Rest"
where
  "SetHeader l ws key v =
     (case ws of (w, s) \<Rightarrow>
        (let k = CanonicalMIMEHeaderKey l key;
             (hs, a) = new_array (hstore w) [v]
         in (w\<lparr>hstore := hs\<rparr>, s\<lparr>header := (header s)(k \<mapsto> \<lparr>ptr = a, len = 1, cap = 1\<rparr>)\<rparr>)))"

subsection \<open>Query structs\<close>

definition query_values :: "'a world \<Rightarrow> ('a, 'u) Rest \<Rightarrow> 'a option list" where
  "query_values w s = elems (qstore w) (queryStructs s)"

definition QueryStruct ::
  "('a, 'u) lib \<Rightarrow> 'a world \<times> ('a, 'u) Rest \<Rightarrow> 'a option \<Rightarrow> 'a world \<times> ('a, 'u) Rest"
where
  "QueryStruct l ws queryStruct =
     (case ws of (w, s) \<Rightarrow>
        (case queryStruct of
           None \<Rightarrow> (w, s)
         | Some q \<Rightarrow>
             (let (qs, sl') = append1 (growslice l) None (qstore w) (queryStructs s) (Some q)
              in (w\<lparr>qstore := qs\<rparr>, s\<lparr>queryStructs := sl'\<rparr>))))"

subsection \<open>Body setters\<close>

definition BodyProvider ::
  "('a, 'u) lib \<Rightarrow> 'a world \<times> ('a, 'u) Rest \<Rightarrow> 'a body_provider option \<Rightarrow> 'a world \<times> ('a, 'u) Rest"
where
  "BodyProvider l ws body =
     (case ws of (w, s) \<Rightarrow>
        (case body of
           None \<Rightarrow> (w, s)
         | Some b \<Rightarrow>
             (let s' = s\<lparr>bodyProvider := Some b, multipartBodyProvider := None\<rparr>;
                  ct = ContentType b
              in if ct \<noteq> [] then SetHeader l (w, s') ''Content-Type'' ct else (w, s'))))"

definition BodyMultipartProvider ::
  "'a world \<times> ('a, 'u) Rest \<Rightarrow> 'a multipart_provider option \<Rightarrow> 'a world \<times> ('a, 'u) Rest"
where
  "BodyMultipartProvider ws body =
     (case ws of (w, s) \<Rightarrow>
        (case body of
           None \<Rightarrow> (w, s)
         | Some b \<Rightarrow> (w, s\<lparr>bodyProvider := None, multipartBodyProvider := Some b\<rparr>)))"

definition Body ::
  "('a, 'u) lib \<Rightarrow> 'a world \<times> ('a, 'u) Rest \<Rightarrow> 'a option \<Rightarrow> 'a world \<times> ('a, 'u) Rest"
where
  "Body l ws body =
     (case body of None \<Rightarrow> ws | Some r \<Rightarrow> BodyProvider l ws (Some (plainBodyProvider r)))"

definition BodyJSON ::
  "('a, 'u) lib \<Rightarrow> 'a world \<times> ('a, 'u) Rest \<Rightarrow> 'a option \<Rightarrow> 'a world \<times> ('a, 'u) Rest"
where
  "BodyJSON l ws bodyJSON =
     (case bodyJSON of None \<Rightarrow> ws | Some p \<Rightarrow> BodyProvider l ws (Some (jsonBodyProvider p)))"

definition BodyForm ::
  "('a, 'u) lib \<Rightarrow> 'a world \<times> ('a, 'u) Rest \<Rightarrow> 'a option \<Rightarrow> 'a world \<times> ('a, 'u) Rest"
where
  "BodyForm l ws bodyForm =
     (case bodyForm of None \<Rightarrow> ws | Some p \<Rightarrow> BodyProvider l ws (Some (formBodyProvider p)))"

definition BodyUrlEncode ::
  "('a, 'u) lib \<Rightarrow> 'a world \<times> ('a, 'u) Rest \<Rightarrow> (string \<rightharpoonup> string) option
     \<Rightarrow> 'a world \<times> ('a, 'u) Rest"
where
  "BodyUrlEncode l ws values =
     (case values of None \<Rightarrow> ws | Some m \<Rightarrow> BodyProvider l ws (Some (formUrlEncodedProvider m)))"

definition BodyMultipart ::
  "'a world \<times> ('a, 'u) Rest \<Rightarrow> (string \<rightharpoonup> 'a) option \<Rightarrow> (string \<rightharpoonup> 'a) option
     \<Rightarrow> 'a world \<times> ('a, 'u) Rest"
where
  "BodyMultipart ws payload filePayload =
     (if payload = None \<and> filePayload = None then ws
      else BodyMultipartProvider ws (Some (multipartDataBodyProvider payload filePayload)))"

definition BodyXML ::
  "('a, 'u) lib \<Rightarrow> 'a world \<times> ('a, 'u) Rest \<Rightarrow> 'a option \<Rightarrow> 'a world \<times> ('a, 'u) Rest"
where
  "BodyXML l ws bodyXml =
     (case bodyXml of None \<Rightarrow> ws | Some p \<Rightarrow> BodyProvider l ws (Some (xmlProvider p)))"

subsection \<open>URL setters\<close>

text \<open>
  \<open>Base\<close> panics when the URL does not parse. \<open>Path\<close> returns the builder as it is
  when the path does not parse; in its first branch the assignment
  \<open>s.baseURL, err = url.Parse(path)\<close> stores the nil that \<open>url.Parse\<close> returns with an
  error, where \<open>s.baseURL\<close> was nil already.
\<close>

definition Base :: "('a, 'u) lib \<Rightarrow> ('a, 'u) Rest \<Rightarrow> string \<Rightarrow> ('a, 'u) Rest outcome" where
  "Base l s base =
     (case url_Parse l base of
        Inl err \<Rightarrow> Panics
      | Inr u \<Rightarrow> Returns (s\<lparr>baseURL := Some u, rawURL := url_String l u\<rparr>))"

definition resolved_rawURL :: "('a, 'u) lib \<Rightarrow> 'u \<Rightarrow> 'u \<Rightarrow> string \<Rightarrow> string" where
  "resolved_rawURL l b pathURL path =
     (let raw = url_String l (url_ResolveReference l b pathURL)
      in if has_suffix path ''/'' \<and> \<not> has_suffix raw ''/'' then raw @ ''/'' else raw)"

definition Path :: "('a, 'u) lib \<Rightarrow> ('a, 'u) Rest \<Rightarrow> string \<Rightarrow> ('a, 'u) Rest" where
  "Path l s path =
     (case baseURL s of
        None \<Rightarrow>
          (case url_Parse l path of
             Inl err \<Rightarrow> s
           | Inr u \<Rightarrow> s\<lparr>baseURL := Some u, rawURL := resolved_rawURL l u u path\<rparr>)
      | Some b \<Rightarrow>
          (case url_Parse l path of
             Inl err \<Rightarrow> s
           | Inr pathURL \<Rightarrow> s\<lparr>rawURL := resolved_rawURL l b pathURL path\<rparr>))"

subsection \<open>\<open>Clone\<close>\<close>

text \<open>
  The header map is copied key by key, \<open>headerCopy[k] = v\<close>: the new map holds the same
  slices. \<open>s.baseURL.String()\<close> dereferences \<open>s.baseURL\<close>, a panic when no base was
  set; the copy of the base is nil when its text does not parse again. The query structs
  are copied into an array of their own. The struct literal does not name
  \<open>multipartBodyProvider\<close>, which so is nil in the clone.
\<close>

definition Clone ::
  "('a, 'u) lib \<Rightarrow> 'a world \<times> ('a, 'u) Rest \<Rightarrow> ('a world \<times> ('a, 'u) Rest) outcome"
where
  "Clone l ws =
     (case ws of (w, s) \<Rightarrow>
        (case baseURL s of
           None \<Rightarrow> Panics
         | Some b \<Rightarrow>
             (let baseURL' = (case url_Parse l (url_String l b) of Inl err \<Rightarrow> None | Inr u \<Rightarrow> Some u);
                  (qs, sl) = copy_slice (growslice l) None (qstore w) (query_values w s)
              in Returns
                   (w\<lparr>qstore := qs\<rparr>,
                    \<lparr>httpMethod = httpMethod s, baseURL = baseURL', rawURL = rawURL s,
                     header = header s, queryStructs = sl, queryParams = queryParams s,
                     bodyProvider = bodyProvider s, multipartBodyProvider = None,
                     responseDecoder = responseDecoder s, isSuccess = isSuccess s,
                     counterVec = counterVec s\<rparr>))))"

section \<open>Sending and decoding\<close>

text \<open>
  A decode target, \<open>successV\<close> or \<open>failureV\<close>: nil, a \<open>*Raw\<close> with the bytes it points
  to, or a pointer to any other value with that value.
\<close>

datatype 'a target = NoTarget | RawTarget string | ValueTarget 'a

text \<open>
  \<open>decodeResponse\<close> returns its error; the targets are returned as they are after the
  call. With the metrics counter set it reads \<open>s.baseURL.Host\<close>, a nil dereference when
  no base was set.
\<close>

definition decodeResponse ::
  "('a, 'u) Rest \<Rightarrow> response \<Rightarrow> 'a target \<Rightarrow> 'a target
     \<Rightarrow> (go_error option \<times> 'a target \<times> 'a target) outcome"
where
  "decodeResponse s resp successV failureV =
     (if counterVec s \<and> baseURL s = None then Panics
      else if isSuccess s resp then
        (case successV of
           NoTarget \<Rightarrow> Returns (None, successV, failureV)
         | RawTarget old \<Rightarrow> Returns (RespBodyErr resp, RawTarget (RespBody resp), failureV)
         | ValueTarget v \<Rightarrow>
             (case responseDecoder s resp v of
                (err, v') \<Rightarrow> Returns (err, ValueTarget v', failureV)))
      else
        (case failureV of
           NoTarget \<Rightarrow> Returns (None, successV, failureV)
         | RawTarget old \<Rightarrow> Returns (RespBodyErr resp, successV, RawTarget (RespBody resp))
         | ValueTarget v \<Rightarrow>
             (case responseDecoder s resp v of
                (err, v') \<Rightarrow> Returns (err, successV, ValueTarget v'))))"

text \<open>
  \<open>Do(req, successV, failureV)\<close>, given what \<open>s.httpClient.Do(req)\<close> returns. The result
  holds the response and error returned, the targets after the call, and whether the
  deferred drain and close of the body ran. With neither an error nor a response,
  \<open>resp.Body\<close> dereferences nil.
\<close>

record 'a do_result =
  do_resp :: "response option"
  do_err :: "go_error option"
  do_successV :: "'a target"
  do_failureV :: "'a target"
  body_closed :: bool

definition Do ::
  "('a, 'u) Rest \<Rightarrow> response option \<times> go_error option \<Rightarrow> 'a target \<Rightarrow> 'a target
     \<Rightarrow> 'a do_result outcome"
where
  "Do s sent successV failureV =
     (case sent of (resp, err) \<Rightarrow>
        (case err of
           Some e \<Rightarrow>
             Returns \<lparr>do_resp = resp, do_err = Some e, do_successV = successV,
                      do_failureV = failureV, body_closed = False\<rparr>
         | None \<Rightarrow>
             (case resp of
                None \<Rightarrow> Panics
              | Some r \<Rightarrow>
                  if StatusCode r = 204 then
                    Returns \<lparr>do_resp = Some r, do_err = None, do_successV = successV,
                             do_failureV = failureV, body_closed = True\<rparr>
                  else if successV \<noteq> NoTarget \<or> failureV \<noteq> NoTarget then
                    (case decodeResponse s r successV failureV of
                       Panics \<Rightarrow> Panics
                     | Returns (err', sv, fv) \<Rightarrow>
                         Returns \<lparr>do_resp = Some r, do_err = err', do_successV = sv,
                                  do_failureV = fv, body_closed = True\<rparr>)
                  else
                    Returns \<lparr>do_resp = Some r, do_err = None, do_successV = successV,
                             do_failureV = failureV, body_closed = True\<rparr>)))"

section \<open>A fragment of \<open>net/url\<close>\<close>

text \<open>
  The standard library's \<open>url.Parse\<close>, \<open>ResolveReference\<close> and \<open>String\<close> on URLs of
  the shape \<open>[scheme:][//host][path]\<close> written with unreserved characters, \<open>/\<close> and
  \<open>:\<close> only: no query, fragment, user information, port, escape or opaque part. On
  such URLs only the fields \<open>Scheme\<close>, \<open>Host\<close> and \<open>Path\<close> are set. Each function
  answers \<open>None\<close> where its argument or its result leaves the fragment, where a path has a
  dot segment to remove, and where versions of the library differ (a scheme followed by a
  single slash).
\<close>

record URL =
  url_Scheme :: string
  url_Host :: string
  url_Path :: string

definition is_lower :: "char \<Rightarrow> bool" where
  "is_lower c = (c \<in> set ''abcdefghijklmnopqrstuvwxyz'')"

definition is_upper :: "char \<Rightarrow> bool" where
  "is_upper c = (c \<in> set ''ABCDEFGHIJKLMNOPQRSTUVWXYZ'')"

definition is_alpha :: "char \<Rightarrow> bool" where
  "is_alpha c = (is_lower c \<or> is_upper c)"

definition unreserved :: "char \<Rightarrow> bool" where
  "unreserved c = (is_alpha c \<or> is_digit c \<or> c \<in> set ''-._~'')"

definition url_char :: "char \<Rightarrow> bool" where
  "url_char c = (unreserved c \<or> c = CHR ''/'' \<or> c = CHR '':'')"

definition to_lower :: "char \<Rightarrow> char" where
  "to_lower c =
     (case map_of (zip ''ABCDEFGHIJKLMNOPQRSTUVWXYZ'' ''abcdefghijklmnopqrstuvwxyz'') c of
        Some d \<Rightarrow> d | None \<Rightarrow> c)"

text \<open>
  \<open>getScheme\<close>: \<open>seen\<close> is the part of \<open>rawURL\<close> already read. The result is the scheme
  and the rest, or the error for a leading colon.
\<close>

fun getScheme_from :: "string \<Rightarrow> string \<Rightarrow> string \<Rightarrow> go_error + string \<times> string" where
  "getScheme_from raw seen [] = Inr ([], raw)"
| "getScheme_from raw seen (c # cs) =
     (if is_alpha c then getScheme_from raw (seen @ [c]) cs
      else if is_digit c \<or> c = CHR ''+'' \<or> c = CHR ''-'' \<or> c = CHR ''.'' then
        (if seen = [] then Inr ([], raw) else getScheme_from raw (seen @ [c]) cs)
      else if c = CHR '':'' then
        (if seen = [] then Inl (ErrorString ''missing protocol scheme'') else Inr (seen, cs))
      else Inr ([], raw))"

definition getScheme :: "string \<Rightarrow> go_error + string \<times> string" where
  "getScheme raw = getScheme_from raw [] raw"

text \<open>The \<open>*url.Error\<close> that \<open>url.Parse\<close> wraps around a cause.\<close>

definition parse_error :: "string \<Rightarrow> go_error \<Rightarrow> go_error" where
  "parse_error raw cause =
     UrlError (''parse \"'' @ raw @ ''\": '' @ (case cause of ErrorString m \<Rightarrow> m | _ \<Rightarrow> [])) cause"

definition first_segment :: "string \<Rightarrow> string" where
  "first_segment p = takeWhile (\<lambda>c. c \<noteq> CHR ''/'') p"

definition net_url_Parse :: "string \<Rightarrow> (go_error + URL) option" where
  "net_url_Parse raw =
     (if \<not> list_all url_char raw then None
      else
        (case getScheme raw of
           Inl e \<Rightarrow> Some (Inl (parse_error raw e))
         | Inr (scheme0, rest) \<Rightarrow>
             (let scheme = map to_lower scheme0 in
              if \<not> has_prefix rest ''/'' then
                (if scheme \<noteq> [] then None
                 else if CHR '':'' \<in> set (first_segment rest) then
                   Some (Inl (parse_error raw
                     (ErrorString ''first path segment in URL cannot contain colon'')))
                 else Some (Inr \<lparr>url_Scheme = [], url_Host = [], url_Path = rest\<rparr>))
              else if has_prefix rest ''//'' \<and> (scheme \<noteq> [] \<or> \<not> has_prefix rest ''///'') then
                (let authority = first_segment (drop 2 rest);
                     rest' = dropWhile (\<lambda>c. c \<noteq> CHR ''/'') (drop 2 rest)
                 in if CHR '':'' \<in> set authority then None
                    else Some (Inr \<lparr>url_Scheme = scheme, url_Host = authority, url_Path = rest'\<rparr>))
              else if scheme \<noteq> [] then None
              else Some (Inr \<lparr>url_Scheme = [], url_Host = [], url_Path = rest\<rparr>))))"

definition net_url_String :: "URL \<Rightarrow> string option" where
  "net_url_String u =
     (if \<not> list_all unreserved (url_Host u) \<or> \<not> list_all url_char (url_Path u) then None
      else Some
        ((if url_Scheme u \<noteq> [] then url_Scheme u @ '':'' else [])
         @ (if (url_Scheme u \<noteq> [] \<or> url_Host u \<noteq> []) \<and> (url_Host u \<noteq> [] \<or> url_Path u \<noteq> [])
            then ''//'' else [])
         @ url_Host u
         @ (if url_Path u \<noteq> [] \<and> \<not> has_prefix (url_Path u) ''/'' \<and> url_Host u \<noteq> [] then ''/'' else [])
         @ (if url_Scheme u = [] \<and> url_Host u = [] \<and> CHR '':'' \<in> set (first_segment (url_Path u))
            then ''./'' else [])
         @ url_Path u))"

fun split_slash :: "string \<Rightarrow> string list" where
  "split_slash [] = [[]]"
| "split_slash (c # cs) =
     (if c = CHR ''/'' then [] # split_slash cs
      else (case split_slash cs of x # xs \<Rightarrow> (c # x) # xs | [] \<Rightarrow> [[c]]))"

text \<open>The base path up to and with its last slash.\<close>

definition dir_of :: "string \<Rightarrow> string" where
  "dir_of p = rev (dropWhile (\<lambda>c. c \<noteq> CHR ''/'') (rev p))"

text \<open>
  \<open>resolvePath(base, ref)\<close> where no element of the merged path is \<open>.\<close> or \<open>..\<close>: the
  merged path, with one leading slash.
\<close>

definition resolvePath :: "string \<Rightarrow> string \<Rightarrow> string option" where
  "resolvePath base ref =
     (let full = (if ref = [] then base
                  else if \<not> has_prefix ref ''/'' then dir_of base @ ref
                  else ref)
      in if full = [] then Some []
         else if ''.'' \<in> set (split_slash full) \<or> ''..'' \<in> set (split_slash full) then None
         else Some (if has_prefix full ''/'' then full else CHR ''/'' # full))"

definition net_url_ResolveReference :: "URL \<Rightarrow> URL \<Rightarrow> URL option" where
  "net_url_ResolveReference u ref =
     (let scheme = (if url_Scheme ref = [] then url_Scheme u else url_Scheme ref) in
      if \<not> list_all url_char (url_Path u) \<or> \<not> list_all url_char (url_Path ref) then None
      else if url_Scheme ref \<noteq> [] \<or> url_Host ref \<noteq> [] then
        (case resolvePath (url_Path ref) [] of
           None \<Rightarrow> None
         | Some p \<Rightarrow> Some \<lparr>url_Scheme = scheme, url_Host = url_Host ref, url_Path = p\<rparr>)
      else
        (case resolvePath (url_Path u) (url_Path ref) of
           None \<Rightarrow> None
         | Some p \<Rightarrow> Some \<lparr>url_Scheme = scheme, url_Host = url_Host u, url_Path = p\<rparr>))"


text \<open>
  A library for examples. It agrees with \<open>net/url\<close> on the fragment; outside, its
  answers are arbitrary and no example uses them. Header keys made of letters, digits
  and hyphens are canonicalised as \<open>textproto\<close> does (upper case at the start and
  after a hyphen, lower case elsewhere); the decoder is a stand-in that stores the
  body text as the decoded value.
\<close>

definition to_upper :: "char \<Rightarrow> char" where
  "to_upper c =
     (case map_of (zip ''abcdefghijklmnopqrstuvwxyz'' ''ABCDEFGHIJKLMNOPQRSTUVWXYZ'') c of
        Some d \<Rightarrow> d | None \<Rightarrow> c)"

fun canonical_from :: "bool \<Rightarrow> string \<Rightarrow> string" where
  "canonical_from upper [] = []"
| "canonical_from upper (c # cs) =
     (if upper then to_upper c else to_lower c) # canonical_from (c = CHR ''-'') cs"

definition example_canonical :: "string \<Rightarrow> string" where
  "example_canonical key =
     (if list_all (\<lambda>c. is_alpha c \<or> is_digit c \<or> c = CHR ''-'') key
      then canonical_from True key else key)"

definition example_lib :: "(string, URL) lib" where
  "example_lib =
     \<lparr>CanonicalMIMEHeaderKey = example_canonical,
      growslice = gc_growslice,
      url_Parse = (\<lambda>s. case net_url_Parse s of Some r \<Rightarrow> r
                        | None \<Rightarrow> Inl (ErrorString ''outside the fragment'')),
      url_ResolveReference = (\<lambda>u ref. case net_url_ResolveReference u ref of Some v \<Rightarrow> v | None \<Rightarrow> ref),
      url_String = (\<lambda>u. case net_url_String u of Some s \<Rightarrow> s | None \<Rightarrow> []),
      jsonDecoder = (\<lambda>resp v. (RespBodyErr resp, RespBody resp))\<rparr>"

section \<open>Sequences of body-setter calls\<close>

datatype 'a body_call =
    Call_Body "'a option"
  | Call_BodyProvider "'a body_provider option"
  | Call_BodyMultipartProvider "'a multipart_provider option"
  | Call_BodyJSON "'a option"
  | Call_BodyForm "'a option"
  | Call_BodyUrlEncode "(string \<rightharpoonup> string) option"
  | Call_BodyMultipart "(string \<rightharpoonup> 'a) option" "(string \<rightharpoonup> 'a) option"
  | Call_BodyXML "'a option"

fun apply_body_call ::
  "('a, 'u) lib \<Rightarrow> 'a world \<times> ('a, 'u) Rest \<Rightarrow> 'a body_call \<Rightarrow> 'a world \<times> ('a, 'u) Rest"
where
  "apply_body_call l ws (Call_Body b) = Body l ws b"
| "apply_body_call l ws (Call_BodyProvider b) = BodyProvider l ws b"
| "apply_body_call l ws (Call_BodyMultipartProvider b) = BodyMultipartProvider ws b"
| "apply_body_call l ws (Call_BodyJSON b) = BodyJSON l ws b"
| "apply_body_call l ws (Call_BodyForm b) = BodyForm l ws b"
| "apply_body_call l ws (Call_BodyUrlEncode b) = BodyUrlEncode l ws b"
| "apply_body_call l ws (Call_BodyMultipart p f) = BodyMultipart ws p f"
| "apply_body_call l ws (Call_BodyXML b) = BodyXML l ws b"

text \<open>The call selects a single-body provider, or a multipart provider.\<close>

fun selects_single :: "'a body_call \<Rightarrow> bool" where
  "selects_single (Call_Body b) = (b \<noteq> None)"
| "selects_single (Call_BodyProvider b) = (b \<noteq> None)"
| "selects_single (Call_BodyJSON b) = (b \<noteq> None)"
| "selects_single (Call_BodyForm b) = (b \<noteq> None)"
| "selects_single (Call_BodyUrlEncode b) = (b \<noteq> None)"
| "selects_single (Call_BodyXML b) = (b \<noteq> None)"
| "selects_single (Call_BodyMultipartProvider b) = False"
| "selects_single (Call_BodyMultipart p f) = False"

fun selects_multipart :: "'a body_call \<Rightarrow> bool" where
  "selects_multipart (Call_BodyMultipartProvider b) = (b \<noteq> None)"
| "selects_multipart (Call_BodyMultipart p f) = (p \<noteq> None \<or> f \<noteq> None)"
| "selects_multipart c = False"

definition one_body :: "('a, 'u) Rest \<Rightarrow> bool" where
  "one_body s = (bodyProvider s = None \<or> multipartBodyProvider s = None)"

section \<open>Plain bases and relative paths\<close>









section \<open>An error handler for examples\<close>

text \<open>
  An \<open>ErrorHandler\<close> that hands back the last response and drops the error, as a caller
  may configure it.
\<close>

definition swallow_error ::
  "response option \<Rightarrow> go_error option \<Rightarrow> int \<Rightarrow> response option \<times> go_error option"
where
  "swallow_error resp err numTries = (resp, None)"

section \<open>Properties of the default retry policy\<close>

lemma redirectsErrorRe_example:
  "redirectsErrorRe ''Get \"http://a.io\": stopped after 10 redirects''"
  by (simp add: redirectsErrorRe_def is_digit_def)

text \<open>
  C1 (as stated, refuted): with a live context and no transport error the policy would
  retry exactly on 429 and on 500..599 except 501. The code also retries status 0 and
  every status from 600 up (its comment names 0 and 999).
\<close>

theorem DefaultRetryPolicy_status_counterexample:
  "DefaultRetryPolicy None (Some \<lparr>StatusCode = 0, Header = Map.empty, RespBody = [], RespBodyErr = None\<rparr>) None
     = Returns (True, None)
   \<and> \<not> spec_retryable_status 0
   \<and> DefaultRetryPolicy None (Some \<lparr>StatusCode = 999, Header = Map.empty, RespBody = [], RespBodyErr = None\<rparr>) None
     = Returns (True, None)
   \<and> \<not> spec_retryable_status 999"
  by (simp add: DefaultRetryPolicy_def spec_retryable_status_def)

text \<open>
  C1 (amended): with a live context, a transport error is retried unless it is a
  \<open>*url.Error\<close> of one of the three terminal kinds, and always without a policy error;
  with no transport error and a response, the policy retries exactly on 429, on 0 and on
  every status from 500 up except 501, and again reports no error.
\<close>

theorem DefaultRetryPolicy_decides:
  "DefaultRetryPolicy None resp (Some e) = Returns (\<not> terminal_transport_error e, None)
   \<and> DefaultRetryPolicy None (Some r) None = Returns (code_retryable_status (StatusCode r), None)"
  by (cases e) (auto simp: DefaultRetryPolicy_def code_retryable_status_def)

theorem DefaultRetryPolicy_decides_witness:
  "DefaultRetryPolicy None None (Some (UrlError ''Get \"http://a.io\": stopped after 10 redirects'' (ErrorString ''stopped after 10 redirects'')))
     = Returns (False, None)
   \<and> DefaultRetryPolicy None (Some \<lparr>StatusCode = 503, Header = Map.empty, RespBody = [], RespBodyErr = None\<rparr>) None
     = Returns (True, None)"
  using DefaultRetryPolicy_decides
    [of None "UrlError ''Get \"http://a.io\": stopped after 10 redirects'' (ErrorString ''stopped after 10 redirects'')"
        "\<lparr>StatusCode = 503, Header = Map.empty, RespBody = [], RespBodyErr = None\<rparr>"]
  by (simp add: redirectsErrorRe_def is_digit_def code_retryable_status_def)

section \<open>Properties of the default backoff\<close>

lemma bitlen_le_53: "0 < m \<Longrightarrow> m < 2 ^ 53 \<Longrightarrow> bitlen m \<le> 53"
  using bitlen_le_iff_power[of m 53] by simp

lemma round_f64_exact:
  "m \<noteq> 0 \<Longrightarrow> bitlen \<bar>m\<bar> \<le> 53 \<Longrightarrow> - 1074 \<le> e \<Longrightarrow> bitlen \<bar>m\<bar> + e \<le> 1024 \<Longrightarrow>
   round_f64 m e = Fin m e"
  by (simp add: round_f64_def Let_def)

lemma round_f64_overflow:
  "0 < m \<Longrightarrow> bitlen m \<le> 53 \<Longrightarrow> - 1074 \<le> e \<Longrightarrow> bitlen m + e > 1024 \<Longrightarrow>
   round_f64 m e = PInf"
  by (simp add: round_f64_def Let_def)

lemma float64_of_int_small:
  "0 < m \<Longrightarrow> m < 2 ^ 53 \<Longrightarrow> float64_of_int m = Fin m 0"
  using bitlen_le_53[of m] by (simp add: float64_of_int_def round_f64_exact)

lemma round_f64_shifted:
  assumes "0 < m" "bitlen m \<le> 53" "0 \<le> k" "bitlen m + k \<le> 1024"
  shows "f64_eq (round_f64 (m * 2 ^ nat k) 0) (Fin m k)"
proof -
  let ?t = "m * 2 ^ nat k"
  have tpos: "0 < ?t" using assms by simp
  have bl: "bitlen ?t = bitlen m + k" using assms by simp
  show ?thesis
  proof (cases "bitlen m + k \<le> 53")
    case True
    then have "round_f64 ?t 0 = Fin ?t 0"
      using tpos bl by (simp add: round_f64_def Let_def)
    then show ?thesis using assms by simp
  next
    case False
    define sh where "sh = nat (bitlen m + k - 53)"
    have sh: "0 < sh" "sh \<le> nat k" "int sh = bitlen m + k - 53" using False assms by (auto simp: sh_def)
    have split: "?t = (m * 2 ^ (nat k - sh)) * 2 ^ sh"
      using sh by (simp add: power_add[symmetric])
    have d: "?t div 2 ^ sh = m * 2 ^ (nat k - sh)" by (subst split) simp
    have r: "?t mod 2 ^ sh = 0" by (subst split) simp
    have bd: "bitlen (m * 2 ^ (nat k - sh)) = bitlen m + int (nat k - sh)" using assms by simp
    have "round_f64 ?t 0 = Fin (m * 2 ^ (nat k - sh)) (int sh)"
      using tpos bl False sh assms d r bd
      by (simp add: round_f64_def Let_def sh_def[symmetric] max_def)
    then show ?thesis using sh assms by (simp add: min_def nat_diff_distrib)
  qed
qed


lemma bitlen_numeral: "bitlen (numeral k) = bitlen (numeral k div 2) + 1"
  by (subst compute_bitlen) simp

lemma bitlen_one: "bitlen 1 = 1"
  by (subst compute_bitlen) simp

lemmas f64_eval = float64_of_int_def round_f64_def Let_def bitlen_numeral bitlen_one out_of_range_def

lemma float64_of_zero: "float64_of_int 0 = Fin 0 0"
  by (simp add: float64_of_int_def round_f64_def)

text \<open>When the product is infinite, or finite but too large, the backoff is the maximum.\<close>

lemma out_of_range_not_inf:
  "\<not> f64_eq (float64_of_int (out_of_range arch True)) PInf"
  by (cases arch) (simp_all add: f64_eval)

lemma out_of_range_large:
  assumes "0 < m" "0 \<le> k" "2 ^ 63 \<le> m * 2 ^ nat k" "is_int64 mx"
  shows "(let sleep = out_of_range arch True
          in if \<not> f64_eq (float64_of_int sleep) (Fin m k) \<or> sleep > mx then mx else sleep) = mx"
proof (cases arch)
  case Indefinite
  have neg: "- (4503599627370496 * (2::int) ^ nat (11 - min 11 k)) < 0" by simp
  have pos: "0 < m * 2 ^ nat (k - min 11 k)" using assms by simp
  have "\<not> f64_eq (float64_of_int (out_of_range Indefinite True)) (Fin m k)"
    using neg pos by (simp add: f64_eval; linarith)
  then show ?thesis using Indefinite by (simp add: Let_def)
next
  case Saturating
  then show ?thesis using assms(4) by (auto simp: out_of_range_def Let_def is_int64_def)
qed

lemma exponential_backoff_value:
  assumes "0 \<le> k" "0 < mn" "mn < 2 ^ 53" "is_int64 mx"
  shows "exponential_backoff arch mn mx k = min (mn * 2 ^ nat k) mx"
proof -
  have b53: "bitlen mn \<le> 53" using assms by (simp add: bitlen_le_53)
  have f: "float64_of_int mn = Fin mn 0" using assms by (simp add: float64_of_int_small)
  have mx: "mx < 2 ^ 63" using assms by (simp add: is_int64_def)
  have b1: "1 \<le> bitlen mn" using assms(2) bitlen_ge_iff_power[of 1 mn] by simp
  have lower: "2 ^ nat (bitlen mn - 1 + k) \<le> mn * 2 ^ nat k"
  proof -
    have "2 ^ nat (bitlen mn - 1) \<le> mn" using bitlen_bounds[OF assms(2)] by simp
    then have "2 ^ nat (bitlen mn - 1) * 2 ^ nat k \<le> mn * 2 ^ nat k" by simp
    moreover have "nat (bitlen mn - 1 + k) = nat (bitlen mn - 1) + nat k"
      using b1 assms(1) by (simp add: nat_add_distrib)
    ultimately show ?thesis by (simp add: power_add)
  qed
  show ?thesis
  proof (cases "bitlen mn + k > 1024")
    case True
    have mult: "fmul (Pow2 k) (float64_of_int mn) = PInf"
    proof (cases "k \<ge> 1024")
      case True then show ?thesis using f assms by (simp add: Pow2_def)
    next
      case False
      then show ?thesis using f assms b53 True
        by (simp add: Pow2_def round_f64_overflow)
    qed
    have "(2::int) ^ 63 \<le> 2 ^ nat (bitlen mn - 1 + k)"
      using True by (intro power_increasing) auto
    then have big: "2 ^ 63 \<le> mn * 2 ^ nat k" using lower by linarith
    have "exponential_backoff arch mn mx k = mx"
      using mult out_of_range_not_inf[of arch]
      by (simp add: exponential_backoff_def Let_def)
    then show ?thesis using big mx by simp
  next
    case False
    then have k1024: "k < 1024" using b1 by simp
    have mult: "fmul (Pow2 k) (float64_of_int mn) = Fin mn k"
      using f assms b53 False k1024 by (simp add: Pow2_def round_f64_exact)
    have tr: "trunc_f64 mn k = mn * 2 ^ nat k" using assms by (simp add: trunc_f64_def)
    show ?thesis
    proof (cases "mn * 2 ^ nat k < 2 ^ 63")
      case True
      moreover have "0 < mn * 2 ^ nat k" using assms by simp
      ultimately have i64: "is_int64 (mn * 2 ^ nat k)" by (simp add: is_int64_def)
      have "f64_eq (float64_of_int (mn * 2 ^ nat k)) (Fin mn k)"
        unfolding float64_of_int_def using assms b53 False by (intro round_f64_shifted) auto
      then show ?thesis using mult tr i64
        by (simp add: exponential_backoff_def Let_def min_def)
    next
      case big: False
      then have ni: "\<not> is_int64 (mn * 2 ^ nat k)" by (simp add: is_int64_def)
      have pos: "0 < mn * 2 ^ nat k" using assms by simp
      have "exponential_backoff arch mn mx k = mx"
        using mult tr ni pos out_of_range_large[of mn k mx arch] assms big
        by (auto simp: exponential_backoff_def Let_def split: if_splits)
      then show ?thesis using big mx by simp
    qed
  qed
qed

lemma exponential_backoff_zero:
  assumes "k < 1024"
  shows "exponential_backoff arch 0 mx k = min 0 mx"
  using assms
  by (simp add: exponential_backoff_def Let_def float64_of_zero Pow2_def round_f64_def
      trunc_f64_def is_int64_def min_def)


lemma wrap64_id: "is_int64 n \<Longrightarrow> wrap64 n = n"
  by (simp add: wrap64_def is_int64_def)

lemma DefaultBackoff_retry_after:
  "retry_after_seconds resp = Some n \<Longrightarrow>
   DefaultBackoff arch mn mx k resp = Returns (wrap64 (1000000000 * n))"
  by (auto simp: retry_after_seconds_def DefaultBackoff_def
      split: option.splits if_splits list.splits)

lemma DefaultBackoff_exponential:
  "retry_after_seconds resp = None \<Longrightarrow> \<not> empty_retry_after resp \<Longrightarrow>
   DefaultBackoff arch mn mx k resp = Returns (exponential_backoff arch mn mx k)"
  by (auto simp: retry_after_seconds_def empty_retry_after_def DefaultBackoff_def
      split: option.splits if_splits list.splits)

lemma exponential_backoff_clamped:
  assumes "0 \<le> k" "0 \<le> mn" "mn < 2 ^ 53" "mn = 0 \<longrightarrow> k < 1024" "is_int64 mx"
  shows "exponential_backoff arch mn mx k = min (mn * 2 ^ nat k) mx"
proof (cases "mn = 0")
  case True
  then show ?thesis using assms exponential_backoff_zero[of k arch mx] by simp
next
  case False
  then show ?thesis using assms by (intro exponential_backoff_value) auto
qed

text \<open>
  C3 (amended): when the status is 429 and the first \<open>Retry-After\<close> value parses to
  \<open>n\<close> with \<open>n\<close> seconds inside the range of a duration (\<open>|n| \<le> 9223372036\<close>), the
  backoff is \<open>n\<close> seconds. Otherwise (and unless the header is present with an empty list
  of values), for \<open>attemptNum \<ge> 0\<close> and \<open>0 \<le> min < 2^53\<close> nanoseconds (with
  \<open>attemptNum < 1024\<close> when \<open>min = 0\<close>), the backoff is \<open>min * 2^attemptNum\<close> clamped
  to \<open>max\<close>, on both conversion behaviours, and it does not decrease when
  \<open>attemptNum\<close> grows.
\<close>

theorem DefaultBackoff_value:
  "(retry_after_seconds resp = Some n \<longrightarrow> \<bar>n\<bar> \<le> 9223372036 \<longrightarrow>
      DefaultBackoff arch mn mx k resp = Returns (n * 1000000000))
   \<and> (retry_after_seconds resp = None \<longrightarrow> \<not> empty_retry_after resp \<longrightarrow>
      0 \<le> k \<longrightarrow> k \<le> k' \<longrightarrow> 0 \<le> mn \<longrightarrow> mn < 2 ^ 53 \<longrightarrow> (mn = 0 \<longrightarrow> k' < 1024) \<longrightarrow> is_int64 mx \<longrightarrow>
        DefaultBackoff arch mn mx k resp = Returns (min (mn * 2 ^ nat k) mx)
        \<and> DefaultBackoff arch mn mx k' resp = Returns (min (mn * 2 ^ nat k') mx)
        \<and> min (mn * 2 ^ nat k) mx \<le> min (mn * 2 ^ nat k') mx)"
proof (intro conjI impI)
  assume "retry_after_seconds resp = Some n" "\<bar>n\<bar> \<le> 9223372036"
  moreover from this have "is_int64 (1000000000 * n)"
    unfolding is_int64_def by (simp add: abs_le_iff; linarith)
  ultimately show "DefaultBackoff arch mn mx k resp = Returns (n * 1000000000)"
    by (simp add: DefaultBackoff_retry_after wrap64_id mult.commute)
next
  assume h: "retry_after_seconds resp = None" "\<not> empty_retry_after resp"
    "0 \<le> k" "k \<le> k'" "0 \<le> mn" "mn < 2 ^ 53" "mn = 0 \<longrightarrow> k' < 1024" "is_int64 mx"
  have "exponential_backoff arch mn mx k = min (mn * 2 ^ nat k) mx"
    using h by (intro exponential_backoff_clamped) auto
  then show "DefaultBackoff arch mn mx k resp = Returns (min (mn * 2 ^ nat k) mx)"
    using h by (simp add: DefaultBackoff_exponential)
  have "exponential_backoff arch mn mx k' = min (mn * 2 ^ nat k') mx"
    using h by (intro exponential_backoff_clamped) auto
  then show "DefaultBackoff arch mn mx k' resp = Returns (min (mn * 2 ^ nat k') mx)"
    using h by (simp add: DefaultBackoff_exponential)
  have "(2::int) ^ nat k \<le> 2 ^ nat k'" using h by (intro power_increasing) auto
  then have "mn * 2 ^ nat k \<le> mn * 2 ^ nat k'" using h(5) by (rule mult_left_mono)
  then show "min (mn * 2 ^ nat k) mx \<le> min (mn * 2 ^ nat k') mx" by (simp add: min_def)
qed

lemmas backoff_eval = DefaultBackoff_def exponential_backoff_def resp429_def ParseInt_def
  is_digit_def digit_val_def wrap64_def Pow2_def is_int64_def trunc_f64_def f64_eval
  retry_after_seconds_def empty_retry_after_def

text \<open>
  C3 (as stated, refuted). A parseable \<open>Retry-After: 9223372037\<close> gives a negative
  duration, since the product with \<open>time.Second\<close> wraps; a \<open>Retry-After\<close> key with no
  values panics; with a negative \<open>min\<close> the backoff decreases; with \<open>min = 0\<close> the
  attempt 1024 waits \<open>max\<close> (the product is NaN); a \<open>min\<close> that binary64 cannot hold
  is rounded; and for a negative attempt number the inexact product gives \<open>max\<close>.
\<close>

theorem DefaultBackoff_counterexample:
  "DefaultBackoff Indefinite 1000000000 30000000000 0 (Some (resp429 [''9223372037'']))
     = Returns (- 9223372036709551616)
   \<and> retry_after_seconds (Some (resp429 [''9223372037''])) = Some 9223372037
   \<and> DefaultBackoff Indefinite 1000000000 30000000000 0 (Some (resp429 [])) = Panics
   \<and> DefaultBackoff Indefinite (- 1) 10 0 None = Returns (- 1)
   \<and> DefaultBackoff Indefinite (- 1) 10 1 None = Returns (- 2)
   \<and> DefaultBackoff Indefinite 0 30 1024 None = Returns 30
   \<and> DefaultBackoff Indefinite 9007199254740993 4611686018427387904 0 None = Returns 9007199254740992
   \<and> DefaultBackoff Indefinite 1 30 (- 1) None = Returns 30
   \<and> DefaultBackoff Indefinite 1 30 0 None = Returns 1"
  by (simp add: backoff_eval)

theorem DefaultBackoff_value_witness:
  "retry_after_seconds (Some (resp429 [''2''])) = Some 2
   \<and> DefaultBackoff Saturating 1000000000 30000000000 0 (Some (resp429 [''2''])) = Returns 2000000000
   \<and> DefaultBackoff Saturating 1000000000 30000000000 1 None = Returns 2000000000
   \<and> DefaultBackoff Saturating 1000000000 30000000000 5 None = Returns 30000000000"
  using DefaultBackoff_value[of "Some (resp429 [''2''])" 2 Saturating 1000000000 30000000000 0 0]
    DefaultBackoff_value[of None 0 Saturating 1000000000 30000000000 1 5]
  by (simp add: retry_after_seconds_def empty_retry_after_def resp429_def ParseInt_def
      is_digit_def digit_val_def is_int64_def)

section \<open>Properties of the retry executor\<close>

subsection \<open>One iteration of the loop\<close>

lemma DoCustom_loop_rewind_fails:
  "rewind_err ev i = Some e \<Longrightarrow>
   DoCustom_loop c ev req resp a n i = \<lparr>ret = Returns (resp, Some e), calls = n\<rparr>"
  by (subst DoCustom_loop.simps) simp

lemma DoCustom_loop_policy_panics:
  "rewind_err ev i = None \<Longrightarrow> do_outcome ev i = (resp', doErr) \<Longrightarrow>
   CheckRetry c (ctx_err ev i) resp' doErr = Panics \<Longrightarrow>
   DoCustom_loop c ev req resp a n i = \<lparr>ret = Panics, calls = Suc n\<rparr>"
  by (subst DoCustom_loop.simps) simp

lemma DoCustom_loop_stops:
  "rewind_err ev i = None \<Longrightarrow> do_outcome ev i = (resp', doErr) \<Longrightarrow>
   CheckRetry c (ctx_err ev i) resp' doErr = Returns (sr, ce) \<Longrightarrow>
   \<not> sr \<or> RetryMax c - int i \<le> 0 \<Longrightarrow>
   DoCustom_loop c ev req resp a n i =
     \<lparr>ret = Returns (terminal c req resp' doErr ce sr (a + 1)), calls = Suc n\<rparr>"
  by (subst DoCustom_loop.simps) auto

lemma DoCustom_loop_drain_panics:
  "rewind_err ev i = None \<Longrightarrow> do_outcome ev i = (None, None) \<Longrightarrow>
   CheckRetry c (ctx_err ev i) None None = Returns (True, ce) \<Longrightarrow>
   0 < RetryMax c - int i \<Longrightarrow>
   DoCustom_loop c ev req resp a n i = \<lparr>ret = Panics, calls = Suc n\<rparr>"
  by (subst DoCustom_loop.simps) auto

lemma DoCustom_loop_backoff_panics:
  "rewind_err ev i = None \<Longrightarrow> do_outcome ev i = (resp', doErr) \<Longrightarrow>
   CheckRetry c (ctx_err ev i) resp' doErr = Returns (True, ce) \<Longrightarrow>
   0 < RetryMax c - int i \<Longrightarrow> doErr \<noteq> None \<or> resp' \<noteq> None \<Longrightarrow>
   Backoff c (RetryWaitMin c) (RetryWaitMax c) (int i) resp' = Panics \<Longrightarrow>
   DoCustom_loop c ev req resp a n i = \<lparr>ret = Panics, calls = Suc n\<rparr>"
  by (subst DoCustom_loop.simps) auto

lemma DoCustom_loop_wait_cancelled:
  "rewind_err ev i = None \<Longrightarrow> do_outcome ev i = (resp', doErr) \<Longrightarrow>
   CheckRetry c (ctx_err ev i) resp' doErr = Returns (True, ce) \<Longrightarrow>
   0 < RetryMax c - int i \<Longrightarrow> doErr \<noteq> None \<or> resp' \<noteq> None \<Longrightarrow>
   Backoff c (RetryWaitMin c) (RetryWaitMax c) (int i) resp' = Returns w \<Longrightarrow>
   wait_cancel ev i = Some e \<Longrightarrow>
   DoCustom_loop c ev req resp a n i = \<lparr>ret = Returns (None, Some e), calls = Suc n\<rparr>"
  by (subst DoCustom_loop.simps) auto

lemma DoCustom_loop_retries:
  "rewind_err ev i = None \<Longrightarrow> do_outcome ev i = (resp', doErr) \<Longrightarrow>
   CheckRetry c (ctx_err ev i) resp' doErr = Returns (True, ce) \<Longrightarrow>
   0 < RetryMax c - int i \<Longrightarrow> doErr \<noteq> None \<or> resp' \<noteq> None \<Longrightarrow>
   Backoff c (RetryWaitMin c) (RetryWaitMax c) (int i) resp' = Returns w \<Longrightarrow>
   wait_cancel ev i = None \<Longrightarrow>
   DoCustom_loop c ev req resp a n i = DoCustom_loop c ev req resp' (a + 1) (Suc n) (Suc i)"
  by (subst DoCustom_loop.simps) auto

text \<open>One iteration, as a case distinction.\<close>

lemma DoCustom_loop_cases:
  obtains (rewind) e where "rewind_err ev i = Some e"
  | (policy_panics) resp' doErr where "rewind_err ev i = None" "do_outcome ev i = (resp', doErr)"
      "CheckRetry c (ctx_err ev i) resp' doErr = Panics"
  | (stops) resp' doErr sr ce where "rewind_err ev i = None" "do_outcome ev i = (resp', doErr)"
      "CheckRetry c (ctx_err ev i) resp' doErr = Returns (sr, ce)" "\<not> sr \<or> RetryMax c - int i \<le> 0"
  | (drain_panics) ce where "rewind_err ev i = None" "do_outcome ev i = (None, None)"
      "CheckRetry c (ctx_err ev i) None None = Returns (True, ce)" "0 < RetryMax c - int i"
  | (backoff_panics) resp' doErr ce where "rewind_err ev i = None" "do_outcome ev i = (resp', doErr)"
      "CheckRetry c (ctx_err ev i) resp' doErr = Returns (True, ce)" "0 < RetryMax c - int i"
      "doErr \<noteq> None \<or> resp' \<noteq> None"
      "Backoff c (RetryWaitMin c) (RetryWaitMax c) (int i) resp' = Panics"
  | (cancelled) resp' doErr ce w e where "rewind_err ev i = None" "do_outcome ev i = (resp', doErr)"
      "CheckRetry c (ctx_err ev i) resp' doErr = Returns (True, ce)" "0 < RetryMax c - int i"
      "doErr \<noteq> None \<or> resp' \<noteq> None"
      "Backoff c (RetryWaitMin c) (RetryWaitMax c) (int i) resp' = Returns w"
      "wait_cancel ev i = Some e"
  | (retries) resp' doErr ce w where "rewind_err ev i = None" "do_outcome ev i = (resp', doErr)"
      "CheckRetry c (ctx_err ev i) resp' doErr = Returns (True, ce)" "0 < RetryMax c - int i"
      "doErr \<noteq> None \<or> resp' \<noteq> None"
      "Backoff c (RetryWaitMin c) (RetryWaitMax c) (int i) resp' = Returns w"
      "wait_cancel ev i = None"
proof (cases "rewind_err ev i")
  case (Some e) then show ?thesis by (rule rewind)
next
  case None
  obtain resp' doErr where d: "do_outcome ev i = (resp', doErr)" by (cases "do_outcome ev i")
  show ?thesis
  proof (cases "CheckRetry c (ctx_err ev i) resp' doErr")
    case Panics with None d show ?thesis by (rule policy_panics)
  next
    case (Returns p)
    obtain sr ce where p: "p = (sr, ce)" by (cases p)
    show ?thesis
    proof (cases "\<not> sr \<or> RetryMax c - int i \<le> 0")
      case True with None d Returns p show ?thesis by (intro stops[of resp' doErr sr ce]) auto
    next
      case False
      then have sr: "sr" and b: "0 < RetryMax c - int i" by auto
      show ?thesis
      proof (cases "doErr = None \<and> resp' = None")
        case True with None d Returns p sr b show ?thesis by (intro drain_panics[of ce]) auto
      next
        case nn: False
        show ?thesis
        proof (cases "Backoff c (RetryWaitMin c) (RetryWaitMax c) (int i) resp'")
          case Panics with None d Returns p sr b nn show ?thesis
            by (intro backoff_panics[of resp' doErr ce]) auto
        next
          case (Returns w)
          note bw = this
          show ?thesis
          proof (cases "wait_cancel ev i")
            case None' : None
            with None d \<open>CheckRetry c (ctx_err ev i) resp' doErr = Returns p\<close> p sr b nn bw show ?thesis
              by (intro retries[of resp' doErr ce w]) auto
          next
            case (Some e)
            with None d \<open>CheckRetry c (ctx_err ev i) resp' doErr = Returns p\<close> p sr b nn bw show ?thesis
              by (intro cancelled[of resp' doErr ce w e]) auto
          qed
        qed
      qed
    qed
  qed
qed

lemma DoCustom_loop_calls:
  "calls (DoCustom_loop c ev req resp a n i) \<le> n + nat (RetryMax c - int i) + 1"
proof (induction "nat (RetryMax c - int i)" arbitrary: resp a n i)
  case 0
  show ?case
    by (cases rule: DoCustom_loop_cases[where ev=ev and i=i and c=c])
       (use 0 in \<open>simp_all add: DoCustom_loop_rewind_fails DoCustom_loop_policy_panics DoCustom_loop_stops
         DoCustom_loop_drain_panics DoCustom_loop_backoff_panics DoCustom_loop_wait_cancelled\<close>)
next
  case (Suc k)
  show ?case
  proof (cases rule: DoCustom_loop_cases[where ev=ev and i=i and c=c])
    case (retries resp' doErr ce w)
    have "calls (DoCustom_loop c ev req resp' (a + 1) (Suc n) (Suc i))
            \<le> Suc n + nat (RetryMax c - int (Suc i)) + 1"
      using Suc.hyps(2) by (intro Suc.hyps(1)) auto
    then show ?thesis using retries Suc.hyps(2)
      by (simp add: DoCustom_loop_retries[OF retries])
  qed (simp_all add: DoCustom_loop_rewind_fails DoCustom_loop_policy_panics DoCustom_loop_stops
         DoCustom_loop_drain_panics DoCustom_loop_backoff_panics DoCustom_loop_wait_cancelled)
qed


lemma terminal_reports:
  "ErrorHandler c = None \<Longrightarrow> terminal c req resp doErr ce sr a = (r, Some e) \<Longrightarrow>
   reports_attempts e a"
  by (auto simp: terminal_def split: if_splits option.splits)

lemma DoCustom_loop_error:
  "ErrorHandler c = None \<Longrightarrow> ret (DoCustom_loop c ev req resp a n i) = Returns (r, Some e) \<Longrightarrow>
   a = int n \<Longrightarrow>
   reports_attempts e (int (calls (DoCustom_loop c ev req resp a n i)))
   \<or> (\<exists>k. rewind_err ev k = Some e) \<or> (\<exists>k. wait_cancel ev k = Some e)"
proof (induction "nat (RetryMax c - int i)" arbitrary: resp a n i)
  case 0
  show ?case
  proof (cases rule: DoCustom_loop_cases[where ev=ev and i=i and c=c])
    case (rewind e')
    with 0 show ?thesis by (auto simp: DoCustom_loop_rewind_fails)
  next
    case (stops resp' doErr sr ce)
    with 0 show ?thesis
      using terminal_reports[of c req resp' doErr ce sr "a + 1" r e]
      by (auto simp: DoCustom_loop_stops[OF stops] add.commute)
  qed (use 0 in \<open>simp_all add: DoCustom_loop_policy_panics DoCustom_loop_drain_panics\<close>)
next
  case (Suc k)
  show ?case
  proof (cases rule: DoCustom_loop_cases[where ev=ev and i=i and c=c])
    case (rewind e')
    with Suc.prems show ?thesis by (auto simp: DoCustom_loop_rewind_fails)
  next
    case (policy_panics resp' doErr)
    with Suc.prems show ?thesis by (simp add: DoCustom_loop_policy_panics[OF policy_panics])
  next
    case (stops resp' doErr sr ce)
    with Suc.prems show ?thesis
      using terminal_reports[of c req resp' doErr ce sr "a + 1" r e]
      by (auto simp: DoCustom_loop_stops[OF stops] add.commute)
  next
    case (drain_panics ce)
    with Suc.prems show ?thesis by (simp add: DoCustom_loop_drain_panics[OF drain_panics])
  next
    case (backoff_panics resp' doErr ce)
    with Suc.prems show ?thesis by (simp add: DoCustom_loop_backoff_panics[OF backoff_panics])
  next
    case (cancelled resp' doErr ce w e')
    with Suc.prems show ?thesis by (auto simp: DoCustom_loop_wait_cancelled[OF cancelled])
  next
    case (retries resp' doErr ce w)
    have eq: "DoCustom_loop c ev req resp a n i = DoCustom_loop c ev req resp' (a + 1) (Suc n) (Suc i)"
      by (rule DoCustom_loop_retries[OF retries])
    have "reports_attempts e (int (calls (DoCustom_loop c ev req resp' (a + 1) (Suc n) (Suc i))))
        \<or> (\<exists>k. rewind_err ev k = Some e) \<or> (\<exists>k. wait_cancel ev k = Some e)"
      using Suc.hyps(2) Suc.prems eq by (intro Suc.hyps(1)) auto
    then show ?thesis by (simp add: eq)
  qed
qed

lemma DoCustom_loop_continues:
  assumes "continues c ev i"
  shows "DoCustom_loop c ev req resp a n i =
         DoCustom_loop c ev req (fst (do_outcome ev i)) (a + 1) (Suc n) (Suc i)"
proof -
  obtain resp' doErr where d: "do_outcome ev i = (resp', doErr)" by (cases "do_outcome ev i")
  from assms d obtain ce w where
    "rewind_err ev i = None" "CheckRetry c (ctx_err ev i) resp' doErr = Returns (True, ce)"
    "0 < RetryMax c - int i" "doErr \<noteq> None \<or> resp' \<noteq> None"
    "Backoff c (RetryWaitMin c) (RetryWaitMax c) (int i) resp' = Returns w"
    "wait_cancel ev i = None"
    by (cases "CheckRetry c (ctx_err ev i) resp' doErr";
        cases "Backoff c (RetryWaitMin c) (RetryWaitMax c) (int i) resp'")
       (auto simp: continues_def)
  then show ?thesis using d by (simp add: DoCustom_loop_retries[of ev i resp' doErr c ce w])
qed

lemma DoCustom_skip:
  "(\<forall>k<i. continues c ev k) \<Longrightarrow>
   \<exists>resp. DoCustom c ev req = DoCustom_loop c ev req resp (int i) i i"
proof (induction i)
  case 0
  then show ?case by (auto simp: DoCustom_def)
next
  case (Suc i)
  then obtain resp where "DoCustom c ev req = DoCustom_loop c ev req resp (int i) i i" by auto
  moreover have "continues c ev i" using Suc.prems by simp
  ultimately show ?case using DoCustom_loop_continues[of c ev i req resp "int i" i]
    by (auto simp: add.commute)
qed


lemmas run_defs = DoCustom_def DoCustom_loop.simps NewRetryDoer_def always_503_def resp503_def
  get_u_def DefaultRetryPolicy_def terminal_def DefaultBackoff_def continues_def reaches_wait_def

subsection \<open>Attempts and the terminal error\<close>

text \<open>
  C2 (as stated, refuted): at most \<open>RetryMax + 1\<close> invocations, and every error returned
  reports the number of attempts. With \<open>RetryMax = -1\<close> the executor is still invoked
  once; and when the context is cancelled during the first wait, the call returns the
  bare \<open>ctx.Err()\<close>, which carries no attempt count.
\<close>

theorem DoCustom_attempts_counterexample:
  "DoCustom (NewRetryDoer Indefinite) (always_503\<lparr>wait_cancel := (\<lambda>i. Some Canceled)\<rparr>) get_u
     = \<lparr>ret = Returns (None, Some Canceled), calls = 1\<rparr>
   \<and> \<not> reports_attempts Canceled 1
   \<and> DoCustom ((NewRetryDoer Indefinite)\<lparr>RetryMax := - 1\<rparr>) always_503 get_u
     = \<lparr>ret = Returns (None, Some (GivingUp ''GET'' ''http://a.io'' 1 None)), calls = 1\<rparr>
   \<and> \<not> (1 \<le> (- 1 :: int) + 1)"
  by (simp add: run_defs)

text \<open>
  C2 (amended): a call invokes the inner executor at most \<open>max(RetryMax, 0) + 1\<close>
  times; and with no \<open>ErrorHandler\<close> configured, an error it returns is the giving-up
  error with exactly the number of invocations performed, unless it is the error of a
  failed body rewind or the context's error from a cancelled wait.
\<close>

theorem DoCustom_attempts:
  "int (calls (DoCustom c ev req)) \<le> max (RetryMax c) 0 + 1
   \<and> (ErrorHandler c = None \<longrightarrow> ret (DoCustom c ev req) = Returns (r, Some e) \<longrightarrow>
        reports_attempts e (int (calls (DoCustom c ev req)))
        \<or> (\<exists>k. rewind_err ev k = Some e) \<or> (\<exists>k. wait_cancel ev k = Some e))"
proof
  have "calls (DoCustom c ev req) \<le> nat (RetryMax c) + 1"
    using DoCustom_loop_calls[of c ev req None 0 0 0] by (simp add: DoCustom_def)
  then show "int (calls (DoCustom c ev req)) \<le> max (RetryMax c) 0 + 1" by linarith
next
  show "ErrorHandler c = None \<longrightarrow> ret (DoCustom c ev req) = Returns (r, Some e) \<longrightarrow>
        reports_attempts e (int (calls (DoCustom c ev req)))
        \<or> (\<exists>k. rewind_err ev k = Some e) \<or> (\<exists>k. wait_cancel ev k = Some e)"
    using DoCustom_loop_error[of c ev req None 0 0 0 r e] by (simp add: DoCustom_def)
qed

theorem DoCustom_attempts_witness:
  "int (calls (DoCustom (NewRetryDoer Indefinite) always_503 get_u)) \<le> 5
   \<and> ErrorHandler (NewRetryDoer Indefinite) = None
   \<and> ret (DoCustom (NewRetryDoer Indefinite) always_503 get_u)
       = Returns (None, Some (GivingUp ''GET'' ''http://a.io'' 5 None))
   \<and> reports_attempts (GivingUp ''GET'' ''http://a.io'' 5 None)
       (int (calls (DoCustom (NewRetryDoer Indefinite) always_503 get_u)))"
  using DoCustom_attempts[of "NewRetryDoer Indefinite" always_503 get_u None
      "GivingUp ''GET'' ''http://a.io'' 5 None"]
  by (simp add: run_defs)

subsection \<open>Cancellation\<close>

text \<open>
  C4 (as stated, refuted): with an \<open>ErrorHandler\<close> configured, a context that is
  cancelled when the policy is consulted is handed to the handler, and the call returns
  the handler's pair. With the handler that drops the error, the call returns the 503
  response and a nil error: the cancellation is not surfaced.
\<close>

theorem DoCustom_cancellation_counterexample:
  "DoCustom ((NewRetryDoer Indefinite)\<lparr>ErrorHandler := Some swallow_error\<rparr>)
     (always_503\<lparr>ctx_err := (\<lambda>k. Some Canceled)\<rparr>) get_u
     = \<lparr>ret = Returns (Some resp503, None), calls = 1\<rparr>"
  by (simp add: run_defs swallow_error_def)

text \<open>
  C4 (amended): let the loop reach iteration \<open>i\<close> (all earlier iterations went round).
  With the default policy, if the context is cancelled or expired when the policy is
  consulted there, the call ends with that attempt (\<open>i + 1\<close> invocations in all,
  whatever the handler); with no \<open>ErrorHandler\<close> it returns the giving-up error that
  wraps the context's error, and with an \<open>ErrorHandler\<close> it returns what the handler
  makes of the last response, the context's error and the attempt count. And under any
  policies and handler, if iteration \<open>i\<close> reaches the wait and the context's
  cancellation wins against the timer, the call returns the context's error and no
  further attempt is made.
\<close>

theorem DoCustom_cancellation:
  "(\<forall>k<i. continues c ev k) \<longrightarrow>
     (CheckRetry c = DefaultRetryPolicy \<longrightarrow> rewind_err ev i = None \<longrightarrow> ctx_err ev i = Some e \<longrightarrow>
        calls (DoCustom c ev req) = i + 1
        \<and> ret (DoCustom c ev req) =
            Returns (case ErrorHandler c of
                       None \<Rightarrow> (None, Some (GivingUp (Method req) (URL req) (int i + 1) (Some e)))
                     | Some h \<Rightarrow> h (fst (do_outcome ev i)) (Some e) (int i + 1)))
     \<and> (reaches_wait c ev i \<longrightarrow> wait_cancel ev i = Some e \<longrightarrow>
        DoCustom c ev req = \<lparr>ret = Returns (None, Some e), calls = i + 1\<rparr>)"
proof (intro impI conjI)
  assume reach: "\<forall>k<i. continues c ev k"
  then obtain resp where start: "DoCustom c ev req = DoCustom_loop c ev req resp (int i) i i"
    using DoCustom_skip by blast
  obtain resp' doErr where d: "do_outcome ev i = (resp', doErr)" by (cases "do_outcome ev i")
  {
    assume a: "CheckRetry c = DefaultRetryPolicy" "rewind_err ev i = None" "ctx_err ev i = Some e"
    then have stop: "DoCustom c ev req =
        \<lparr>ret = Returns (terminal c req resp' doErr (Some e) False (int i + 1)), calls = Suc i\<rparr>"
      using DoCustom_loop_stops[of ev i resp' doErr c False "Some e" req resp "int i" i] d start
      by (simp add: DefaultRetryPolicy_def)
    then show "calls (DoCustom c ev req) = i + 1" by simp
    show "ret (DoCustom c ev req) =
            Returns (case ErrorHandler c of
                       None \<Rightarrow> (None, Some (GivingUp (Method req) (URL req) (int i + 1) (Some e)))
                     | Some h \<Rightarrow> h (fst (do_outcome ev i)) (Some e) (int i + 1))"
      using stop d by (simp add: terminal_def split: option.splits)
  }
  {
    assume w: "reaches_wait c ev i" "wait_cancel ev i = Some e"
    from w(1) d obtain ce wt where
      "rewind_err ev i = None" "CheckRetry c (ctx_err ev i) resp' doErr = Returns (True, ce)"
      "0 < RetryMax c - int i" "doErr \<noteq> None \<or> resp' \<noteq> None"
      "Backoff c (RetryWaitMin c) (RetryWaitMax c) (int i) resp' = Returns wt"
      by (cases "CheckRetry c (ctx_err ev i) resp' doErr";
          cases "Backoff c (RetryWaitMin c) (RetryWaitMax c) (int i) resp'")
         (auto simp: reaches_wait_def)
    then show "DoCustom c ev req = \<lparr>ret = Returns (None, Some e), calls = i + 1\<rparr>"
      using DoCustom_loop_wait_cancelled[of ev i resp' doErr c ce wt e req resp "int i" i] d w(2) start
      by simp
  }
qed

theorem DoCustom_cancellation_witness:
  "continues (NewRetryDoer Indefinite) (always_503\<lparr>ctx_err := (\<lambda>k. if k = 1 then Some Canceled else None)\<rparr>) 0
   \<and> calls (DoCustom (NewRetryDoer Indefinite) (always_503\<lparr>ctx_err := (\<lambda>k. if k = 1 then Some Canceled else None)\<rparr>) get_u) = 2
   \<and> ret (DoCustom (NewRetryDoer Indefinite) (always_503\<lparr>ctx_err := (\<lambda>k. if k = 1 then Some Canceled else None)\<rparr>) get_u)
       = Returns (None, Some (GivingUp ''GET'' ''http://a.io'' 2 (Some Canceled)))
   \<and> calls (DoCustom ((NewRetryDoer Indefinite)\<lparr>ErrorHandler := Some swallow_error\<rparr>)
        (always_503\<lparr>ctx_err := (\<lambda>k. if k = 1 then Some Canceled else None)\<rparr>) get_u) = 2
   \<and> continues (NewRetryDoer Indefinite) (always_503\<lparr>wait_cancel := (\<lambda>k. if k = 1 then Some DeadlineExceeded else None)\<rparr>) 0
   \<and> reaches_wait (NewRetryDoer Indefinite) (always_503\<lparr>wait_cancel := (\<lambda>k. if k = 1 then Some DeadlineExceeded else None)\<rparr>) 1
   \<and> DoCustom (NewRetryDoer Indefinite) (always_503\<lparr>wait_cancel := (\<lambda>k. if k = 1 then Some DeadlineExceeded else None)\<rparr>) get_u
       = \<lparr>ret = Returns (None, Some DeadlineExceeded), calls = 2\<rparr>"
  using DoCustom_cancellation[of 1 "NewRetryDoer Indefinite"
      "always_503\<lparr>ctx_err := (\<lambda>k. if k = 1 then Some Canceled else None)\<rparr>" Canceled get_u]
    DoCustom_cancellation[of 1 "(NewRetryDoer Indefinite)\<lparr>ErrorHandler := Some swallow_error\<rparr>"
      "always_503\<lparr>ctx_err := (\<lambda>k. if k = 1 then Some Canceled else None)\<rparr>" Canceled get_u]
    DoCustom_cancellation[of 1 "NewRetryDoer Indefinite"
      "always_503\<lparr>wait_cancel := (\<lambda>k. if k = 1 then Some DeadlineExceeded else None)\<rparr>" DeadlineExceeded get_u]
  by (simp add: run_defs swallow_error_def)

section \<open>Properties of the body setters\<close>

lemmas body_setter_defs = Body_def BodyJSON_def BodyForm_def BodyUrlEncode_def BodyXML_def
  BodyMultipart_def BodyProvider_def BodyMultipartProvider_def SetHeader_def new_array_def

lemma body_call_single:
  "selects_single c \<Longrightarrow>
   bodyProvider (snd (apply_body_call l ws c)) \<noteq> None \<and> multipartBodyProvider (snd (apply_body_call l ws c)) = None"
  by (cases c; cases ws) (auto simp: body_setter_defs Let_def split: prod.splits)

lemma body_call_multipart:
  "selects_multipart c \<Longrightarrow>
   multipartBodyProvider (snd (apply_body_call l ws c)) \<noteq> None \<and> bodyProvider (snd (apply_body_call l ws c)) = None"
  by (cases c; cases ws) (auto simp: body_setter_defs Let_def split: prod.splits)

lemma body_call_idle:
  "\<not> selects_single c \<Longrightarrow> \<not> selects_multipart c \<Longrightarrow> apply_body_call l ws c = ws"
  by (cases c; cases ws) (auto simp: body_setter_defs)

lemma body_call_one_body: "one_body (snd ws) \<Longrightarrow> one_body (snd (apply_body_call l ws c))"
  using body_call_single[of c l ws] body_call_multipart[of c l ws] body_call_idle[of c l ws]
  by (cases "selects_single c"; cases "selects_multipart c") (auto simp: one_body_def)

lemma body_calls_one_body: "one_body (snd ws) \<Longrightarrow> one_body (snd (foldl (apply_body_call l) ws cs))"
  by (induction cs arbitrary: ws) (auto simp: body_call_one_body)

text \<open>
  C7: a new builder holds at most one of the two body slots; any sequence of body-setter
  calls (with nil or non-nil arguments) keeps it so; and a call that selects a
  single-body provider leaves the multipart slot nil, a call that selects a multipart
  provider leaves the single-body slot nil, whatever the builder held before.
\<close>

theorem body_slots_exclusive:
  "one_body (New l)
   \<and> (one_body (snd ws) \<longrightarrow> one_body (snd (foldl (apply_body_call l) ws cs)))
   \<and> (selects_single c \<longrightarrow>
        bodyProvider (snd (apply_body_call l ws c)) \<noteq> None
        \<and> multipartBodyProvider (snd (apply_body_call l ws c)) = None)
   \<and> (selects_multipart c \<longrightarrow>
        multipartBodyProvider (snd (apply_body_call l ws c)) \<noteq> None
        \<and> bodyProvider (snd (apply_body_call l ws c)) = None)"
  using body_calls_one_body[of ws l cs] body_call_single[of c l ws] body_call_multipart[of c l ws]
  by (simp add: one_body_def New_def)

theorem body_slots_exclusive_witness:
  "one_body (New example_lib)
   \<and> one_body (snd (foldl (apply_body_call example_lib) (empty_world, New example_lib)
        [Call_BodyJSON (Some ''p''), Call_BodyMultipart None (Some Map.empty), Call_BodyXML (Some ''q'')]))
   \<and> selects_single (Call_BodyXML (Some ''q''))
   \<and> multipartBodyProvider (snd (apply_body_call example_lib
        (apply_body_call example_lib (empty_world, New example_lib) (Call_BodyMultipart None (Some Map.empty)))
        (Call_BodyXML (Some ''q'')))) = None
   \<and> selects_multipart (Call_BodyMultipart None (Some (Map.empty :: string \<rightharpoonup> string)))
   \<and> bodyProvider (snd (apply_body_call example_lib
        (apply_body_call example_lib (empty_world, New example_lib) (Call_BodyJSON (Some ''p'')))
        (Call_BodyMultipart None (Some Map.empty)))) = None"
  using body_slots_exclusive[of example_lib "(empty_world, New example_lib)"
      "[Call_BodyJSON (Some ''p''), Call_BodyMultipart None (Some Map.empty), Call_BodyXML (Some ''q'')]"
      "Call_BodyXML (Some ''q'')"]
    body_slots_exclusive[of example_lib
      "apply_body_call example_lib (empty_world, New example_lib) (Call_BodyMultipart None (Some Map.empty))"
      "[]" "Call_BodyXML (Some ''q'')"]
    body_slots_exclusive[of example_lib
      "apply_body_call example_lib (empty_world, New example_lib) (Call_BodyJSON (Some ''p''))"
      "[]" "Call_BodyMultipart None (Some Map.empty)"]
  by simp

text \<open>
  C8: a body setter called with nil (for \<open>BodyMultipart\<close>: with both maps nil) returns
  the builder and the world as they were: the body slots, the header map and the header
  arrays are the same, so no provider is overwritten and no \<open>Content-Type\<close> is written.
\<close>

theorem nil_body_unchanged:
  "Body l ws None = ws \<and> BodyJSON l ws None = ws \<and> BodyForm l ws None = ws
   \<and> BodyUrlEncode l ws None = ws \<and> BodyMultipart ws None None = ws \<and> BodyXML l ws None = ws
   \<and> BodyProvider l ws None = ws \<and> BodyMultipartProvider ws None = ws"
  by (cases ws) (simp add: body_setter_defs)

theorem nil_body_unchanged_witness:
  "BodyJSON example_lib (BodyForm example_lib (empty_world, New example_lib) (Some ''p'')) None
     = BodyForm example_lib (empty_world, New example_lib) (Some ''p'')
   \<and> header_values (fst (BodyJSON example_lib (BodyForm example_lib (empty_world, New example_lib) (Some ''p'')) None))
        (snd (BodyJSON example_lib (BodyForm example_lib (empty_world, New example_lib) (Some ''p'')) None))
        ''Content-Type'' = Some [''application/x-www-form-urlencoded'']"
  using nil_body_unchanged[of example_lib "BodyForm example_lib (empty_world, New example_lib) (Some ''p'')"]
  by (simp add: body_setter_defs header_values_def elems_def example_lib_def empty_world_def New_def
      example_canonical_def is_alpha_def is_lower_def is_upper_def is_digit_def to_upper_def to_lower_def)

text \<open>
  \<open>BodyMultipart\<close> with only one of its two maps nil does select a provider.
\<close>

lemma BodyMultipart_one_nil:
  "multipartBodyProvider (snd (BodyMultipart (w, s) None (Some f)))
     = Some (multipartDataBodyProvider None (Some f))
   \<and> bodyProvider (snd (BodyMultipart (w, s) None (Some f))) = None"
  by (simp add: body_setter_defs)

section \<open>Properties of the URL setters\<close>

text \<open>
  C10: whatever the URL library, when it fails to parse the path, \<open>Path\<close> returns the
  builder as it was, base URL and raw URL included (and \<open>Path\<close> has no error result).
\<close>

theorem Path_parse_error:
  "url_Parse l path = Inl e \<Longrightarrow> Path l s path = s"
  by (simp add: Path_def split: option.splits)

theorem Path_parse_error_witness:
  "url_Parse example_lib '':c'' = Inl (parse_error '':c'' (ErrorString ''missing protocol scheme''))
   \<and> Path example_lib (New example_lib) '':c'' = New example_lib"
  using Path_parse_error[of example_lib "'':c''"
      "parse_error '':c'' (ErrorString ''missing protocol scheme'')" "New example_lib"]
  by (simp add: example_lib_def net_url_Parse_def getScheme_def url_char_def unreserved_def
      is_alpha_def is_lower_def is_upper_def is_digit_def)

subsection \<open>\<open>Base\<close> followed by \<open>Path\<close>\<close>



lemma has_prefix_append: "has_prefix (p @ s) p"
  by (induction p) auto

lemma has_prefix_Cons_single: "has_prefix s [c] = (s \<noteq> [] \<and> hd s = c)"
  by (cases s) auto























section \<open>Properties of sending\<close>

text \<open>
  C6: when the executor returns a response with status 204 and no error, \<open>Do\<close>
  returns that response with a nil error, and both targets are as they were, whichever
  targets were passed.
\<close>

theorem Do_no_content:
  "StatusCode r = 204 \<Longrightarrow>
   Do s (Some r, None) successV failureV =
     Returns \<lparr>do_resp = Some r, do_err = None, do_successV = successV, do_failureV = failureV,
              body_closed = True\<rparr>"
  by (simp add: Do_def)


theorem Do_no_content_witness:
  "StatusCode \<lparr>StatusCode = 204, Header = Map.empty, RespBody = ''{}'', RespBodyErr = None\<rparr> = 204
   \<and> Do (New example_lib)
        (Some \<lparr>StatusCode = 204, Header = Map.empty, RespBody = ''{}'', RespBodyErr = None\<rparr>, None)
        (ValueTarget ''old'') (RawTarget ''raw'')
      = Returns \<lparr>do_resp = Some \<lparr>StatusCode = 204, Header = Map.empty, RespBody = ''{}'', RespBodyErr = None\<rparr>,
                 do_err = None, do_successV = ValueTarget ''old'', do_failureV = RawTarget ''raw'',
                 body_closed = True\<rparr>"
  using Do_no_content[of "\<lparr>StatusCode = 204, Header = Map.empty, RespBody = ''{}'', RespBodyErr = None\<rparr>"
      "New example_lib" "ValueTarget ''old''" "RawTarget ''raw''"]
  by simp

section \<open>Properties of \<open>Clone\<close>\<close>

lemmas builder_eval = Base_def New_def example_lib_def net_url_Parse_def net_url_String_def
  net_url_ResolveReference_def resolvePath_def dir_of_def first_segment_def getScheme_def
  url_char_def unreserved_def is_alpha_def is_lower_def is_upper_def is_digit_def to_lower_def
  to_upper_def parse_error_def example_canonical_def AddHeader_def SetHeader_def append1_def
  new_array_def elems_def nil_slice_def gc_growslice_def empty_world_def header_values_def
  Clone_def copy_slice_def query_values_def QueryStruct_def Path_def resolved_rawURL_def
  has_suffix_def Let_def

text \<open>
  C9 (the code departs from it): a builder holds three values under one header key, so
  that the slice has length 3 in an array of capacity 4. The clone's map holds the same
  slice. Adding a value on the clone writes cell 3 of the shared array; adding a value on
  the original then writes the same cell, and the clone reads the original's value where
  its own was.
\<close>

theorem Clone_shares_header_arrays:
  "(case Base example_lib (New example_lib) ''https://a.io'' of
      Panics \<Rightarrow> False
    | Returns s0 \<Rightarrow>
        (let wb = AddHeader example_lib (AddHeader example_lib (AddHeader example_lib
                    (empty_world, s0) ''X'' ''1'') ''X'' ''2'') ''X'' ''3''
         in case Clone example_lib wb of
              Panics \<Rightarrow> False
            | Returns (w1, c) \<Rightarrow>
                (let (w2, c') = AddHeader example_lib (w1, c) ''X'' ''c'';
                     (w3, b') = AddHeader example_lib (w2, snd wb) ''X'' ''b''
                 in header_values w2 c' ''X'' = Some [''1'', ''2'', ''3'', ''c'']
                    \<and> header_values w3 c' ''X'' = Some [''1'', ''2'', ''3'', ''b''])))"
  by (simp add: builder_eval)


end
